theory Spec2Isabelle
  imports Complex_Main
begin

section \<open>Data model\<close>

text \<open>
  The monitor is written in Python over dictionaries. A dictionary with a fixed set of
  keys is a record here; a key that the code reads with \<open>.get(key, default)\<close> or tests
  with \<open>in\<close> is an optional field. A Python float is the real number it denotes, so
  comparisons, \<open>abs\<close>, \<open>max\<close> and \<open>min\<close> are exact; the operations that round their
  result are taken from the library record \<open>float_lib\<close> below. Python exceptions are
  values of \<open>py_error\<close>.
\<close>

datatype py_error =
    KeyError
  | ValueError
  | ZeroDivisionError
  | IndexError
  | NoSuchProcess
  | AccessDenied

definition bindE :: "py_error + 'a \<Rightarrow> ('a \<Rightarrow> py_error + 'b) \<Rightarrow> py_error + 'b" where
  "bindE m f = (case m of Inl e \<Rightarrow> Inl e | Inr x \<Rightarrow> f x)"

record memory_block =
  mem_total_mb :: real
  mem_available_mb :: real
  mem_used_mb :: real
  mem_percent :: real
  mem_free_mb :: real
  mem_cached_mb :: real
  mem_buffers_mb :: real

record swap_block =
  swap_total_mb :: real
  swap_used_mb :: real
  swap_free_mb :: real
  swap_percent :: real

record cpu_block =
  cpu_total_percent :: real
  cpu_cores :: "nat option"
  cpu_per_core_percent :: "real list"
  cpu_frequency_mhz :: "real option"

record load_block =
  load_1min :: "real option"
  load_5min :: "real option"
  load_15min :: "real option"

text \<open>
  The dictionary that \<open>_get_process_dict\<close> returns is either the six-key dictionary of a
  process or the empty dictionary \<open>{}\<close>.
\<close>

record process_info =
  pi_pid :: int
  pi_name :: string
  pi_memory_mb :: real
  pi_memory_percent :: real
  pi_cpu_percent :: real
  pi_status :: string

datatype proc_dict = EmptyDict | ProcDict process_info

record snapshot =
  snap_timestamp :: string
  snap_memory :: memory_block
  snap_swap :: swap_block
  snap_cpu :: cpu_block
  snap_load_average :: load_block
  snap_top_processes :: "proc_dict list"
  snap_leak_process :: "proc_dict option"

section \<open>Float arithmetic and built-ins that can raise\<close>

text \<open>
  The arithmetic of floats is library code: every operation returns the double nearest
  to the exact result, and the functions that compute with floats take the operations as a
  record of functions. \<open>fl_sum xs\<close> is \<open>sum(xs)\<close> on a list of floats, \<open>fl_truediv a n\<close> is
  \<open>a / n\<close> for a positive integer \<open>n\<close>, \<open>fl_sub a b\<close> is \<open>a - b\<close> and \<open>fl_round2 x\<close>
  is \<open>round(x, 2)\<close>. Division by the integer 0 raises before any arithmetic is done.
\<close>

record float_lib =
  fl_sum :: "real list \<Rightarrow> real"
  fl_truediv :: "real \<Rightarrow> nat \<Rightarrow> real"
  fl_sub :: "real \<Rightarrow> real \<Rightarrow> real"
  fl_round2 :: "real \<Rightarrow> real"

definition py_max :: "real list \<Rightarrow> py_error + real" where
  "py_max xs = (case xs of [] \<Rightarrow> Inl ValueError | x # ys \<Rightarrow> Inr (fold max ys x))"

definition py_min :: "real list \<Rightarrow> py_error + real" where
  "py_min xs = (case xs of [] \<Rightarrow> Inl ValueError | x # ys \<Rightarrow> Inr (fold min ys x))"

definition py_truediv :: "float_lib \<Rightarrow> real \<Rightarrow> nat \<Rightarrow> py_error + real" where
  "py_truediv fl a n = (if n = 0 then Inl ZeroDivisionError else Inr (fl_truediv fl a n))"

section \<open>resource\_monitor.py: check\_critical\_conditions\<close>

text \<open>
  A warning is a formatted string: a tier prefix, a fixed phrase naming the resource and
  the value printed with one decimal. The three parts are kept apart; the tier
  \<open>CRITICAL\<close> is the prefix of lines 183, 190, 197 and 204, the tier \<open>WARNING\<close> the
  prefix of lines 185, 192 and 199.
\<close>

datatype tier = CRITICAL | WARNING

datatype resource = Memory | Swap | Cpu | AvailableMemory

datatype warning = Warning (w_tier: tier) (w_resource: resource) (w_value: real)

definition check_critical_conditions :: "snapshot \<Rightarrow> warning list" where
  "check_critical_conditions snapshot =
    (let warnings0 = [];
         mem_percent = mem_percent (snap_memory snapshot);
         warnings1 =
           (if mem_percent > 90 then warnings0 @ [Warning CRITICAL Memory mem_percent]
            else if mem_percent > 75 then warnings0 @ [Warning WARNING Memory mem_percent]
            else warnings0);
         swap_percent = swap_percent (snap_swap snapshot);
         warnings2 =
           (if swap_percent > 80 then warnings1 @ [Warning CRITICAL Swap swap_percent]
            else if swap_percent > 50 then warnings1 @ [Warning WARNING Swap swap_percent]
            else warnings1);
         cpu_percent = cpu_total_percent (snap_cpu snapshot);
         warnings3 =
           (if cpu_percent > 90 then warnings2 @ [Warning CRITICAL Cpu cpu_percent]
            else if cpu_percent > 80 then warnings2 @ [Warning WARNING Cpu cpu_percent]
            else warnings2);
         available_mb = mem_available_mb (snap_memory snapshot);
         warnings4 =
           (if available_mb < 100
            then warnings3 @ [Warning CRITICAL AvailableMemory available_mb]
            else warnings3)
     in warnings4)"

text \<open>The position of a threshold row in the fixed order of the checks.\<close>

fun row_rank :: "resource \<Rightarrow> nat" where
  "row_rank Memory = 0"
| "row_rank Swap = 1"
| "row_rank Cpu = 2"
| "row_rank AvailableMemory = 3"

section \<open>resource\_monitor.py: processes and snapshots\<close>

text \<open>
  The host as \<open>psutil\<close> shows it. A process object answers each query with a value or
  with an exception. \<open>h_process_iter\<close> is what \<open>psutil.process_iter\<close> yields,
  \<open>h_Process\<close> is the constructor \<open>psutil.Process(pid)\<close>. The memory, swap, cpu and
  load blocks are the dictionaries that \<open>get_memory_info\<close> and \<open>get_cpu_info\<close> build
  from the counters (conversion to MB and rounding done). The clock gives the successive
  results of \<open>datetime.now().isoformat()\<close>.
\<close>

record proc =
  p_pid :: int
  p_memory_info :: "py_error + real"
  p_name :: "py_error + string"
  p_memory_percent :: "py_error + real"
  p_cpu_percent :: "py_error + real"
  p_status :: "py_error + string"

record host =
  h_memory :: memory_block
  h_swap :: swap_block
  h_cpu :: cpu_block
  h_load_average :: load_block
  h_process_iter :: "proc list"
  h_Process :: "int \<Rightarrow> py_error + proc"

record clock =
  readings :: "nat \<Rightarrow> string"
  calls :: nat

definition now :: "clock \<Rightarrow> string \<times> clock" where
  "now clk = (readings clk (calls clk), clk \<lparr> calls := calls clk + 1 \<rparr>)"

text \<open>
  \<open>_get_process_dict\<close>: the queries run in the order of lines 114 to 121
  (\<open>p_memory_info\<close> is the resident size in bytes); the first exception ends them, and \<open>NoSuchProcess\<close> and \<open>AccessDenied\<close> are caught at line 123,
  where the empty dictionary is returned.
\<close>

definition get_process_dict :: "float_lib \<Rightarrow> proc \<Rightarrow> py_error + proc_dict" where
  "get_process_dict fl proc =
    (case
       bindE (p_memory_info proc) (\<lambda>rss.
       bindE (p_name proc) (\<lambda>name.
       bindE (p_memory_percent proc) (\<lambda>memory_percent.
       bindE (p_cpu_percent proc) (\<lambda>cpu_percent.
       bindE (p_status proc) (\<lambda>status.
         Inr (ProcDict \<lparr>
           pi_pid = p_pid proc,
           pi_name = name,
           pi_memory_mb = fl_round2 fl (fl_truediv fl rss (1024 * 1024)),
           pi_memory_percent = memory_percent,
           pi_cpu_percent = cpu_percent,
           pi_status = status \<rparr>))))))
     of
       Inl e \<Rightarrow> if e = NoSuchProcess \<or> e = AccessDenied then Inr EmptyDict else Inl e
     | Inr d \<Rightarrow> Inr d)"

text \<open>The loop of lines 99 to 103.\<close>

fun collect_processes ::
    "float_lib \<Rightarrow> proc list \<Rightarrow> proc_dict list \<Rightarrow> py_error + proc_dict list" where
  "collect_processes fl [] processes = Inr processes"
| "collect_processes fl (proc # rest) processes =
    (case get_process_dict fl proc of
       Inl e \<Rightarrow>
         if e = NoSuchProcess \<or> e = AccessDenied then collect_processes fl rest processes
         else Inl e
     | Inr d \<Rightarrow> collect_processes fl rest (processes @ [d]))"

text \<open>
  \<open>processes.sort(key=lambda x: x['memory_mb'], reverse=True)\<close>: the keys of all
  elements are computed first, \<open>x['memory_mb']\<close> raising \<open>KeyError\<close> on a dictionary
  without that key; the sort is stable and descending.
\<close>

definition memory_mb_key :: "proc_dict \<Rightarrow> py_error + real" where
  "memory_mb_key x = (case x of EmptyDict \<Rightarrow> Inl KeyError | ProcDict p \<Rightarrow> Inr (pi_memory_mb p))"

fun sort_keys :: "proc_dict list \<Rightarrow> py_error + (real \<times> proc_dict) list" where
  "sort_keys [] = Inr []"
| "sort_keys (x # xs) =
    bindE (memory_mb_key x) (\<lambda>k. bindE (sort_keys xs) (\<lambda>ks. Inr ((k, x) # ks)))"

definition sort_by_memory :: "proc_dict list \<Rightarrow> py_error + proc_dict list" where
  "sort_by_memory processes =
    bindE (sort_keys processes) (\<lambda>keyed. Inr (map snd (sort_key (\<lambda>kx. - fst kx) keyed)))"

text \<open>
  \<open>get_process_info\<close>: \<open>if pid:\<close> is Python truthiness of an optional integer, which
  \<open>None\<close> and 0 fail. With a pid, \<open>NoSuchProcess\<close> from the constructor or from the
  dictionary is passed over (line 95) and every other exception leaves the call.
\<close>

definition get_process_info ::
    "float_lib \<Rightarrow> host \<Rightarrow> int option \<Rightarrow> py_error + proc_dict list" where
  "get_process_info fl host pid =
    (let processes = []
     in if (case pid of None \<Rightarrow> False | Some n \<Rightarrow> n \<noteq> 0)
        then
          (case bindE (h_Process host (the pid)) (get_process_dict fl) of
             Inl e \<Rightarrow> if e = NoSuchProcess then Inr processes else Inl e
           | Inr d \<Rightarrow> Inr (processes @ [d]))
        else
          bindE (collect_processes fl (h_process_iter host) processes) (\<lambda>processes.
          bindE (sort_by_memory processes) (\<lambda>processes.
            Inr (take 10 processes))))"

text \<open>
  \<open>collect_snapshot\<close>: the dictionary literal reads the clock, merges the dictionary of
  \<open>get_memory_info\<close> and then that of \<open>get_cpu_info\<close>, each with a timestamp of its
  own that replaces the earlier one, and then lists the processes.
\<close>

definition collect_snapshot ::
    "float_lib \<Rightarrow> host \<Rightarrow> clock \<Rightarrow> int option \<Rightarrow> py_error + (snapshot \<times> clock)" where
  "collect_snapshot fl host clk leak_process_pid =
    (let (t0, clk0) = now clk;
         (t1, clk1) = now clk0;
         (t2, clk2) = now clk1
     in bindE (get_process_info fl host None) (\<lambda>top_processes.
          let snapshot =
                \<lparr> snap_timestamp = t2,
                  snap_memory = h_memory host,
                  snap_swap = h_swap host,
                  snap_cpu = h_cpu host,
                  snap_load_average = h_load_average host,
                  snap_top_processes = top_processes,
                  snap_leak_process = None \<rparr>
          in if (case leak_process_pid of None \<Rightarrow> False | Some n \<Rightarrow> n \<noteq> 0)
             then bindE (get_process_info fl host leak_process_pid) (\<lambda>leak_process_info.
                    case leak_process_info of
                      [] \<Rightarrow> Inr (snapshot, clk2)
                    | d # _ \<Rightarrow> Inr (snapshot \<lparr> snap_leak_process := Some d \<rparr>, clk2))
             else Inr (snapshot, clk2)))"

section \<open>kernel\_event\_analyzer.py: the records of an analysis\<close>

text \<open>
  An OOM event (the dictionary of \<open>_parse_oom_event\<close>, its constant key \<open>type\<close> left
  out) and a critical event (the dictionary of \<open>_parse_critical_event\<close>).
\<close>

record oom_event =
  oe_timestamp :: string
  oe_pattern :: string
  oe_pid :: "int option"
  oe_process_name :: "string option"
  oe_oom_score :: "int option"
  oe_memory_info :: "string option"
  oe_raw_line :: string

datatype event_type =
    KERNEL_PANIC
  | KERNEL_BUG
  | KERNEL_WARNING
  | KERNEL_OOPS
  | SEGFAULT
  | MEMORY_ALLOCATION_FAILURE
  | UNKNOWN

record critical_event =
  ce_timestamp :: string
  ce_type :: event_type
  ce_pattern :: string
  ce_raw_line :: string

text \<open>
  The dictionary of \<open>analyze_all_events\<close>. The report generator reads four of its keys
  with \<open>.get(key, default)\<close>, so these four may be absent.
\<close>

record analysis =
  an_timestamp :: string
  an_total_log_lines :: nat
  an_oom_events :: "oom_event list option"
  an_critical_events :: "critical_event list option"
  an_oom_events_count :: "int option"
  an_critical_events_count :: "int option"

definition dict_get :: "'a option \<Rightarrow> 'a \<Rightarrow> 'a" where
  "dict_get field dflt = (case field of None \<Rightarrow> dflt | Some v \<Rightarrow> v)"

section \<open>kernel\_event\_analyzer.py: the scans\<close>

subsection \<open>Strings and the library\<close>

text \<open>
  Lines are strings over the code points 0 to 255. \<open>is_space\<close> is \<open>str.isspace\<close> on
  them (tab to carriage return, the four separators 28 to 31, the blank, next line 133
  and the no-break space 160), \<open>py_strip\<close> is \<open>str.strip()\<close>, \<open>lower_char\<close> is
  \<open>str.lower()\<close> on one character (the letters A to Z and the capital letters 192 to
  222 but the multiplication sign 215), \<open>py_lower\<close> is \<open>str.lower()\<close> and
  \<open>contains sub s\<close> is \<open>sub in s\<close>.
\<close>

definition is_space :: "char \<Rightarrow> bool" where
  "is_space c =
    (let n = (of_char c :: nat)
     in (9 \<le> n \<and> n \<le> 13) \<or> (28 \<le> n \<and> n \<le> 32) \<or> n = 133 \<or> n = 160)"

definition py_strip :: "string \<Rightarrow> string" where
  "py_strip s = rev (dropWhile is_space (rev (dropWhile is_space s)))"

definition lower_char :: "char \<Rightarrow> char" where
  "lower_char c =
    (let n = (of_char c :: nat)
     in if (65 \<le> n \<and> n \<le> 90) \<or> (192 \<le> n \<and> n \<le> 222 \<and> n \<noteq> 215)
        then char_of (n + 32) else c)"

definition py_lower :: "string \<Rightarrow> string" where
  "py_lower s = map lower_char s"

fun starts_with :: "string \<Rightarrow> string \<Rightarrow> bool" where
  "starts_with [] s = True"
| "starts_with (p # ps) [] = False"
| "starts_with (p # ps) (c # cs) = (p = c \<and> starts_with ps cs)"

fun contains :: "string \<Rightarrow> string \<Rightarrow> bool" where
  "contains sub [] = (sub = [])"
| "contains sub (c # cs) = (starts_with sub (c # cs) \<or> contains sub cs)"

text \<open>
  The module \<open>re\<close> and the built-in \<open>int\<close> are library code: the scans take them as a
  record of functions. \<open>re_search_ci pattern line\<close> says whether
  \<open>re.search(pattern, line, re.IGNORECASE)\<close> finds a match; the five \<open>find\<close> functions
  are the searches of lines 130, 134, 138, 142 and 146, each giving the group the code
  reads from the match; \<open>py_int\<close> is \<open>int\<close> on such a group, which can raise.
\<close>

record re_lib =
  re_search_ci :: "string \<Rightarrow> string \<Rightarrow> bool"
  find_timestamp :: "string \<Rightarrow> string option"
  find_pid :: "string \<Rightarrow> string option"
  find_process :: "string \<Rightarrow> string option"
  find_oom_score :: "string \<Rightarrow> string option"
  find_memory :: "string \<Rightarrow> string option"
  py_int :: "string \<Rightarrow> py_error + int"

definition oom_patterns :: "string list" where
  "oom_patterns =
    [''Out of memory'', ''OOM killer'', ''oom-killer'', ''killed process'',
     ''Memory cgroup out of memory'', ''oom_score'']"

definition critical_patterns :: "string list" where
  "critical_patterns =
    [''kernel.*panic'', ''kernel.*BUG'', ''kernel.*WARNING'', ''kernel.*Oops'', ''segfault'',
     ''general protection fault'', ''page allocation failure'', ''allocation failure'']"

subsection \<open>\_parse\_oom\_event and \_parse\_critical\_event\<close>

text \<open>
  The timestamp of an event is the one found in the line, or else a reading of the
  clock. Any exception inside the \<open>try\<close> makes the parser return \<open>None\<close>.
\<close>

definition event_timestamp :: "re_lib \<Rightarrow> clock \<Rightarrow> string \<Rightarrow> string \<times> clock" where
  "event_timestamp re clk line =
    (case find_timestamp re line of Some t \<Rightarrow> (t, clk) | None \<Rightarrow> now clk)"

definition int_group :: "re_lib \<Rightarrow> string option \<Rightarrow> py_error + int option" where
  "int_group re m =
    (case m of None \<Rightarrow> Inr None | Some g \<Rightarrow> bindE (py_int re g) (\<lambda>n. Inr (Some n)))"

definition parse_oom_event ::
    "re_lib \<Rightarrow> clock \<Rightarrow> string \<Rightarrow> string \<Rightarrow> oom_event option \<times> clock" where
  "parse_oom_event re clk line pattern =
    (let (timestamp, clk') = event_timestamp re clk line
     in case
          bindE (int_group re (find_pid re line)) (\<lambda>pid.
          bindE (int_group re (find_oom_score re line)) (\<lambda>oom_score.
            Inr \<lparr> oe_timestamp = timestamp,
                  oe_pattern = pattern,
                  oe_pid = pid,
                  oe_process_name = find_process re line,
                  oe_oom_score = oom_score,
                  oe_memory_info = find_memory re line,
                  oe_raw_line = py_strip line \<rparr>))
        of
          Inl e \<Rightarrow> (None, clk')
        | Inr event \<Rightarrow> (Some event, clk'))"

definition classify_pattern :: "string \<Rightarrow> event_type" where
  "classify_pattern pattern =
    (if contains ''panic'' (py_lower pattern) then KERNEL_PANIC
     else if contains ''bug'' (py_lower pattern) then KERNEL_BUG
     else if contains ''warning'' (py_lower pattern) then KERNEL_WARNING
     else if contains ''oops'' (py_lower pattern) then KERNEL_OOPS
     else if contains ''segfault'' (py_lower pattern) then SEGFAULT
     else if contains ''allocation failure'' (py_lower pattern) then MEMORY_ALLOCATION_FAILURE
     else UNKNOWN)"

definition parse_critical_event ::
    "re_lib \<Rightarrow> clock \<Rightarrow> string \<Rightarrow> string \<Rightarrow> critical_event option \<times> clock" where
  "parse_critical_event re clk line pattern =
    (let (timestamp, clk') = event_timestamp re clk line
     in (Some \<lparr> ce_timestamp = timestamp,
                ce_type = classify_pattern pattern,
                ce_pattern = pattern,
                ce_raw_line = py_strip line \<rparr>, clk'))"

subsection \<open>analyze\_oom\_events and analyze\_critical\_events\<close>

text \<open>
  The inner loop tries the patterns in order and leaves at the first one that matches
  (\<open>break\<close>), whether or not the parser gave an event; the outer loop skips a line whose
  \<open>strip()\<close> is empty (\<open>continue\<close>).
\<close>

fun oom_pattern_loop ::
    "re_lib \<Rightarrow> clock \<Rightarrow> string \<Rightarrow> string list \<Rightarrow> oom_event list \<Rightarrow> oom_event list \<times> clock"
where
  "oom_pattern_loop re clk line [] oom_events = (oom_events, clk)"
| "oom_pattern_loop re clk line (pattern # rest) oom_events =
    (if re_search_ci re pattern line
     then case parse_oom_event re clk line pattern of
            (None, clk') \<Rightarrow> (oom_events, clk')
          | (Some event, clk') \<Rightarrow> (oom_events @ [event], clk')
     else oom_pattern_loop re clk line rest oom_events)"

fun oom_line_loop ::
    "re_lib \<Rightarrow> clock \<Rightarrow> string list \<Rightarrow> oom_event list \<Rightarrow> oom_event list \<times> clock"
where
  "oom_line_loop re clk [] oom_events = (oom_events, clk)"
| "oom_line_loop re clk (line # rest) oom_events =
    (if py_strip line = [] then oom_line_loop re clk rest oom_events
     else case oom_pattern_loop re clk line oom_patterns oom_events of
            (oom_events', clk') \<Rightarrow> oom_line_loop re clk' rest oom_events')"

definition analyze_oom_events :: "re_lib \<Rightarrow> clock \<Rightarrow> string list \<Rightarrow> oom_event list \<times> clock" where
  "analyze_oom_events re clk logs = oom_line_loop re clk logs []"

fun critical_pattern_loop ::
    "re_lib \<Rightarrow> clock \<Rightarrow> string \<Rightarrow> string list \<Rightarrow> critical_event list \<Rightarrow>
     critical_event list \<times> clock"
where
  "critical_pattern_loop re clk line [] critical_events = (critical_events, clk)"
| "critical_pattern_loop re clk line (pattern # rest) critical_events =
    (if re_search_ci re pattern line
     then case parse_critical_event re clk line pattern of
            (None, clk') \<Rightarrow> (critical_events, clk')
          | (Some event, clk') \<Rightarrow> (critical_events @ [event], clk')
     else critical_pattern_loop re clk line rest critical_events)"

fun critical_line_loop ::
    "re_lib \<Rightarrow> clock \<Rightarrow> string list \<Rightarrow> critical_event list \<Rightarrow> critical_event list \<times> clock"
where
  "critical_line_loop re clk [] critical_events = (critical_events, clk)"
| "critical_line_loop re clk (line # rest) critical_events =
    (if py_strip line = [] then critical_line_loop re clk rest critical_events
     else case critical_pattern_loop re clk line critical_patterns critical_events of
            (critical_events', clk') \<Rightarrow> critical_line_loop re clk' rest critical_events')"

definition analyze_critical_events ::
    "re_lib \<Rightarrow> clock \<Rightarrow> string list \<Rightarrow> critical_event list \<times> clock" where
  "analyze_critical_events re clk logs = critical_line_loop re clk logs []"

subsection \<open>analyze\_all\_events\<close>

text \<open>
  \<open>logs\<close> is what \<open>read_kernel_logs\<close> returned; \<open>kernel_events\<close> is the history that the
  analyzer keeps and extends with the new analysis.
\<close>

definition analyze_all_events ::
    "re_lib \<Rightarrow> clock \<Rightarrow> analysis list \<Rightarrow> string list \<Rightarrow> analysis \<times> analysis list \<times> clock"
where
  "analyze_all_events re clk kernel_events logs =
    (let (oom_events, clk1) = analyze_oom_events re clk logs;
         (critical_events, clk2) = analyze_critical_events re clk1 logs;
         (timestamp, clk3) = now clk2;
         analysis =
           \<lparr> an_timestamp = timestamp,
             an_total_log_lines = length logs,
             an_oom_events = Some oom_events,
             an_critical_events = Some critical_events,
             an_oom_events_count = Some (int (length oom_events)),
             an_critical_events_count = Some (int (length critical_events)) \<rparr>
     in (analysis, kernel_events @ [analysis], clk3))"

section \<open>report\_generator.py\<close>

subsection \<open>\_calculate\_trend\<close>

datatype trend =
    INSUFFICIENT_DATA
  | STABLE
  | INCREASING
  | DECREASING
  | SLIGHTLY_INCREASING
  | SLIGHTLY_DECREASING

definition calculate_trend :: "float_lib \<Rightarrow> real list \<Rightarrow> py_error + trend" where
  "calculate_trend fl values =
    (if length values < 2 then Inr INSUFFICIENT_DATA
     else
       let first_half = take (length values div 2) values;
           second_half = drop (length values div 2) values
       in bindE (py_truediv fl (fl_sum fl first_half) (length first_half)) (\<lambda>avg_first.
          bindE (py_truediv fl (fl_sum fl second_half) (length second_half)) (\<lambda>avg_second.
            let diff = fl_sub fl avg_second avg_first
            in if \<bar>diff\<bar> < 1 then Inr STABLE
               else if diff > 5 then Inr INCREASING
               else if diff < - 5 then Inr DECREASING
               else Inr (if diff > 0 then SLIGHTLY_INCREASING else SLIGHTLY_DECREASING))))"

subsection \<open>\_generate\_executive\_summary\<close>

datatype status = NORMAL | STATUS_WARNING | STATUS_CRITICAL

text \<open>
  The summary is either the one-key dictionary whose status is the sentence "no data
  for the analysis" (line 72), or the seven-key dictionary of lines 89 to 97; the three
  peaks are kept as numbers, the code prints them with one decimal.
\<close>

record summary_fields =
  sum_status :: status
  sum_monitoring_duration :: nat
  sum_peak_memory_usage :: real
  sum_peak_cpu_usage :: real
  sum_peak_swap_usage :: real
  sum_total_oom_events :: int
  sum_total_critical_events :: int

datatype executive_summary = NoData | Summary summary_fields

definition generate_executive_summary ::
    "snapshot list \<Rightarrow> analysis list \<Rightarrow> py_error + executive_summary" where
  "generate_executive_summary monitoring_data kernel_events =
    (if monitoring_data = [] then Inr NoData
     else
       bindE (py_max (map (\<lambda>d. mem_percent (snap_memory d)) monitoring_data)) (\<lambda>max_memory.
       bindE (py_max (map (\<lambda>d. cpu_total_percent (snap_cpu d)) monitoring_data)) (\<lambda>max_cpu.
       bindE (py_max (map (\<lambda>d. swap_percent (snap_swap d)) monitoring_data)) (\<lambda>max_swap.
         let total_oom = sum_list (map (\<lambda>e. dict_get (an_oom_events_count e) 0) kernel_events);
             total_critical =
               sum_list (map (\<lambda>e. dict_get (an_critical_events_count e) 0) kernel_events);
             status =
               (if max_memory > 90 \<or> max_swap > 80 \<or> total_oom > 0 then STATUS_CRITICAL
                else if max_memory > 75 \<or> max_swap > 50 \<or> total_critical > 0
                then STATUS_WARNING
                else NORMAL)
         in Inr (Summary \<lparr>
              sum_status = status,
              sum_monitoring_duration = length monitoring_data,
              sum_peak_memory_usage = max_memory,
              sum_peak_cpu_usage = max_cpu,
              sum_peak_swap_usage = max_swap,
              sum_total_oom_events = total_oom,
              sum_total_critical_events = total_critical \<rparr>)))))"

subsection \<open>\_analyze\_memory, \_analyze\_cpu, \_analyze\_swap\<close>

text \<open>Each block is a dictionary; the empty dictionary \<open>{}\<close> is \<open>None\<close>.\<close>

record memory_stats =
  ms_average_usage_percent :: real
  ms_max_usage_percent :: real
  ms_min_usage_percent :: real
  ms_min_available_mb :: real
  ms_memory_pressure_periods :: nat
  ms_critical_periods :: nat
  ms_trend :: trend

record cpu_stats =
  cs_average_usage_percent :: real
  cs_max_usage_percent :: real
  cs_min_usage_percent :: real
  cs_high_load_periods :: nat
  cs_critical_periods :: nat
  cs_trend :: trend

record swap_stats =
  ss_average_usage_percent :: real
  ss_max_usage_percent :: real
  ss_max_used_mb :: real
  ss_swap_activity_periods :: nat
  ss_critical_periods :: nat
  ss_trend :: trend

definition analyze_memory ::
    "float_lib \<Rightarrow> snapshot list \<Rightarrow> py_error + memory_stats option" where
  "analyze_memory fl monitoring_data =
    (if monitoring_data = [] then Inr None
     else
       let memory_percents = map (\<lambda>d. mem_percent (snap_memory d)) monitoring_data;
           available_mbs = map (\<lambda>d. mem_available_mb (snap_memory d)) monitoring_data
       in bindE (py_truediv fl (fl_sum fl memory_percents) (length memory_percents)) (\<lambda>avg.
          bindE (py_max memory_percents) (\<lambda>mx.
          bindE (py_min memory_percents) (\<lambda>mn.
          bindE (py_min available_mbs) (\<lambda>mn_avail.
          bindE (calculate_trend fl memory_percents) (\<lambda>tr.
            Inr (Some \<lparr>
              ms_average_usage_percent = fl_round2 fl avg,
              ms_max_usage_percent = fl_round2 fl mx,
              ms_min_usage_percent = fl_round2 fl mn,
              ms_min_available_mb = fl_round2 fl mn_avail,
              ms_memory_pressure_periods = length (filter (\<lambda>m. m > 75) memory_percents),
              ms_critical_periods = length (filter (\<lambda>m. m > 90) memory_percents),
              ms_trend = tr \<rparr>)))))))"

definition analyze_cpu ::
    "float_lib \<Rightarrow> snapshot list \<Rightarrow> py_error + cpu_stats option" where
  "analyze_cpu fl monitoring_data =
    (if monitoring_data = [] then Inr None
     else
       let cpu_percents = map (\<lambda>d. cpu_total_percent (snap_cpu d)) monitoring_data
       in bindE (py_truediv fl (fl_sum fl cpu_percents) (length cpu_percents)) (\<lambda>avg.
          bindE (py_max cpu_percents) (\<lambda>mx.
          bindE (py_min cpu_percents) (\<lambda>mn.
          bindE (calculate_trend fl cpu_percents) (\<lambda>tr.
            Inr (Some \<lparr>
              cs_average_usage_percent = fl_round2 fl avg,
              cs_max_usage_percent = fl_round2 fl mx,
              cs_min_usage_percent = fl_round2 fl mn,
              cs_high_load_periods = length (filter (\<lambda>c. c > 80) cpu_percents),
              cs_critical_periods = length (filter (\<lambda>c. c > 90) cpu_percents),
              cs_trend = tr \<rparr>))))))"

definition analyze_swap ::
    "float_lib \<Rightarrow> snapshot list \<Rightarrow> py_error + swap_stats option" where
  "analyze_swap fl monitoring_data =
    (if monitoring_data = [] then Inr None
     else
       let swap_percents = map (\<lambda>d. swap_percent (snap_swap d)) monitoring_data;
           swap_used_mbs = map (\<lambda>d. swap_used_mb (snap_swap d)) monitoring_data
       in bindE (py_truediv fl (fl_sum fl swap_percents) (length swap_percents)) (\<lambda>avg.
          bindE (py_max swap_percents) (\<lambda>mx.
          bindE (py_max swap_used_mbs) (\<lambda>mx_used.
          bindE (calculate_trend fl swap_percents) (\<lambda>tr.
            Inr (Some \<lparr>
              ss_average_usage_percent = fl_round2 fl avg,
              ss_max_usage_percent = fl_round2 fl mx,
              ss_max_used_mb = fl_round2 fl mx_used,
              ss_swap_activity_periods = length (filter (\<lambda>s. s > 50) swap_percents),
              ss_critical_periods = length (filter (\<lambda>s. s > 80) swap_percents),
              ss_trend = tr \<rparr>))))))"

subsection \<open>\_analyze\_critical\_events\<close>

text \<open>
  The three warnings of lines 162, 164 and 166 are formatted strings; each is kept as
  its resource and value. An entry of the combined list is either the dictionary of
  line 169 (type \<open>RESOURCE_CRITICAL\<close>) or a critical event of a kernel analysis.
\<close>

datatype critical_warning =
    CriticalMemoryUse real
  | CriticalSwapUse real
  | CriticalCpuLoad real

datatype critical_entry =
    RESOURCE_CRITICAL string "critical_warning list"
  | KernelCritical critical_event

record critical_rollup =
  cr_total_critical_events :: nat
  cr_events :: "critical_entry list"

definition snapshot_critical_warnings :: "snapshot \<Rightarrow> critical_warning list" where
  "snapshot_critical_warnings snapshot =
    (let warnings0 = [];
         warnings1 =
           (if mem_percent (snap_memory snapshot) > 90
            then warnings0 @ [CriticalMemoryUse (mem_percent (snap_memory snapshot))]
            else warnings0);
         warnings2 =
           (if swap_percent (snap_swap snapshot) > 80
            then warnings1 @ [CriticalSwapUse (swap_percent (snap_swap snapshot))]
            else warnings1);
         warnings3 =
           (if cpu_total_percent (snap_cpu snapshot) > 90
            then warnings2 @ [CriticalCpuLoad (cpu_total_percent (snap_cpu snapshot))]
            else warnings2)
     in warnings3)"

definition analyze_critical_events_report :: "snapshot list \<Rightarrow> analysis list \<Rightarrow> critical_rollup" where
  "analyze_critical_events_report monitoring_data kernel_events =
    (let critical_events_list0 = [];
         critical_events_list1 =
           fold (\<lambda>snapshot acc.
                   let warnings = snapshot_critical_warnings snapshot
                   in if warnings \<noteq> []
                      then acc @ [RESOURCE_CRITICAL (snap_timestamp snapshot) warnings]
                      else acc)
             monitoring_data critical_events_list0;
         critical_events_list2 =
           fold (\<lambda>kernel_analysis acc.
                   fold (\<lambda>event acc'. acc' @ [KernelCritical event])
                     (dict_get (an_critical_events kernel_analysis) []) acc)
             kernel_events critical_events_list1
     in \<lparr> cr_total_critical_events = length critical_events_list2,
          cr_events = take 50 critical_events_list2 \<rparr>)"

subsection \<open>\_analyze\_oom\_events\<close>

text \<open>
  \<open>processes_killed\<close> is a \<open>defaultdict(int)\<close>: an association list in insertion
  order, \<open>bump\<close> being \<open>d[k] += 1\<close>. The test \<open>if event.get('process_name')\<close> is
  Python truthiness: an absent name, \<open>None\<close> and the empty string all fail it.
\<close>

fun bump :: "string \<Rightarrow> (string \<times> nat) list \<Rightarrow> (string \<times> nat) list" where
  "bump k [] = [(k, 1)]"
| "bump k ((k', c) # rest) =
    (if k = k' then (k', c + 1) # rest else (k', c) # bump k rest)"

text \<open>The body of the loop of lines 200 to 202.\<close>

definition count_step :: "oom_event \<Rightarrow> (string \<times> nat) list \<Rightarrow> (string \<times> nat) list" where
  "count_step event processes_killed =
    (case oe_process_name event of
       None \<Rightarrow> processes_killed
     | Some name \<Rightarrow> if name \<noteq> [] then bump name processes_killed else processes_killed)"

record oom_rollup =
  or_oom_events_detected :: bool
  or_total_oom_events :: nat
  or_processes_killed :: "(string \<times> nat) list option"
  or_recent_oom_events :: "oom_event list option"

definition all_oom_events :: "analysis list \<Rightarrow> oom_event list" where
  "all_oom_events kernel_events =
    fold (\<lambda>kernel_analysis acc. acc @ dict_get (an_oom_events kernel_analysis) [])
      kernel_events []"

definition analyze_oom_events_report :: "analysis list \<Rightarrow> oom_rollup" where
  "analyze_oom_events_report kernel_events =
    (let events = all_oom_events kernel_events
     in if events = []
        then \<lparr> or_oom_events_detected = False, or_total_oom_events = 0,
               or_processes_killed = None, or_recent_oom_events = None \<rparr>
        else
          let processes_killed =
                fold count_step events []
          in \<lparr> or_oom_events_detected = True,
               or_total_oom_events = length events,
               or_processes_killed = Some processes_killed,
               or_recent_oom_events = Some (drop (length events - 10) events) \<rparr>)"

subsection \<open>\_analyze\_resource\_exhaustion\<close>

datatype exhaustion =
    MEMORY_exhausted real
  | SWAP_exhausted real

record exhaustion_entry =
  ee_timestamp :: string
  ee_events :: "exhaustion list"

record exhaustion_rollup =
  er_exhaustion_events_count :: nat
  er_events :: "exhaustion_entry list"

definition snapshot_exhaustion :: "snapshot \<Rightarrow> exhaustion list" where
  "snapshot_exhaustion snapshot =
    (let events0 = [];
         events1 =
           (if mem_available_mb (snap_memory snapshot) < 50
            then events0 @ [MEMORY_exhausted (mem_available_mb (snap_memory snapshot))]
            else events0);
         events2 =
           (if swap_free_mb (snap_swap snapshot) < 100 \<and> swap_total_mb (snap_swap snapshot) > 0
            then events1 @ [SWAP_exhausted (swap_free_mb (snap_swap snapshot))]
            else events1)
     in events2)"

definition analyze_resource_exhaustion :: "snapshot list \<Rightarrow> exhaustion_rollup option" where
  "analyze_resource_exhaustion monitoring_data =
    (if monitoring_data = [] then None
     else
       let exhaustion_events =
             fold (\<lambda>snapshot acc.
                     let events = snapshot_exhaustion snapshot
                     in if events \<noteq> []
                        then acc @ [\<lparr> ee_timestamp = snap_timestamp snapshot,
                                      ee_events = events \<rparr>]
                        else acc)
               monitoring_data []
       in Some \<lparr> er_exhaustion_events_count = length exhaustion_events,
                 er_events = exhaustion_events \<rparr>)"

subsection \<open>\_track\_leak\_process\<close>

record leak_sample =
  ls_timestamp :: string
  ls_memory_mb :: real
  ls_memory_percent :: real
  ls_cpu_percent :: real

record leak_fields =
  lf_pid :: int
  lf_history :: "leak_sample list"
  lf_max_memory_mb :: real
  lf_memory_growth :: real

datatype leak_tracking = ProcessNotFound | LeakTracking leak_fields

text \<open>\<open>snapshot['leak_process'].get(key, 0)\<close>: the empty dictionary gives 0.\<close>

definition proc_get :: "proc_dict \<Rightarrow> (process_info \<Rightarrow> real) \<Rightarrow> real" where
  "proc_get d field = (case d of EmptyDict \<Rightarrow> 0 | ProcDict p \<Rightarrow> field p)"

definition py_first :: "'a list \<Rightarrow> py_error + 'a" where
  "py_first xs = (case xs of [] \<Rightarrow> Inl IndexError | x # _ \<Rightarrow> Inr x)"

definition py_last :: "'a list \<Rightarrow> py_error + 'a" where
  "py_last xs = (if xs = [] then Inl IndexError else Inr (last xs))"

definition track_leak_process ::
    "float_lib \<Rightarrow> snapshot list \<Rightarrow> int \<Rightarrow> py_error + leak_tracking" where
  "track_leak_process fl monitoring_data leak_process_pid =
    (let leak_history =
           fold (\<lambda>snapshot acc.
                   case snap_leak_process snapshot of
                     None \<Rightarrow> acc
                   | Some d \<Rightarrow>
                       acc @ [\<lparr> ls_timestamp = snap_timestamp snapshot,
                                 ls_memory_mb = proc_get d pi_memory_mb,
                                 ls_memory_percent = proc_get d pi_memory_percent,
                                 ls_cpu_percent = proc_get d pi_cpu_percent \<rparr>])
             monitoring_data []
     in if leak_history = [] then Inr ProcessNotFound
        else
          bindE (py_max (map ls_memory_mb leak_history)) (\<lambda>mx.
          bindE (py_last leak_history) (\<lambda>l.
          bindE (py_first leak_history) (\<lambda>f.
            Inr (LeakTracking \<lparr>
              lf_pid = leak_process_pid,
              lf_history = leak_history,
              lf_max_memory_mb = mx,
              lf_memory_growth = fl_sub fl (ls_memory_mb l) (ls_memory_mb f) \<rparr>)))))"

subsection \<open>\_generate\_recommendations\<close>

text \<open>Each recommendation is a fixed text; the OOM one also prints the count.\<close>

datatype recommendation =
    NotEnoughData
  | MemoryAbove90
  | SwapAbove80
  | OomKills int
  | CpuAbove90
  | NormalOperation

definition generate_recommendations ::
    "snapshot list \<Rightarrow> analysis list \<Rightarrow> py_error + recommendation list" where
  "generate_recommendations monitoring_data kernel_events =
    (let recommendations0 = []
     in if monitoring_data = [] then Inr [NotEnoughData]
        else
          bindE (py_max (map (\<lambda>d. mem_percent (snap_memory d)) monitoring_data)) (\<lambda>max_memory.
            let recommendations1 =
                  (if max_memory > 90 then recommendations0 @ [MemoryAbove90]
                   else recommendations0)
            in
          bindE (py_max (map (\<lambda>d. swap_percent (snap_swap d)) monitoring_data)) (\<lambda>max_swap.
            let recommendations2 =
                  (if max_swap > 80 then recommendations1 @ [SwapAbove80]
                   else recommendations1);
                total_oom =
                  sum_list (map (\<lambda>e. dict_get (an_oom_events_count e) 0) kernel_events);
                recommendations3 =
                  (if total_oom > 0 then recommendations2 @ [OomKills total_oom]
                   else recommendations2)
            in
          bindE (py_max (map (\<lambda>d. cpu_total_percent (snap_cpu d)) monitoring_data)) (\<lambda>max_cpu.
            let recommendations4 =
                  (if max_cpu > 90 then recommendations3 @ [CpuAbove90]
                   else recommendations3);
                recommendations5 =
                  (if recommendations4 = [] then recommendations4 @ [NormalOperation]
                   else recommendations4)
            in Inr recommendations5))))"

subsection \<open>generate\_report\<close>

text \<open>
  \<open>if leak_process_pid:\<close> is Python truthiness of an optional integer: \<open>None\<close> and 0
  both fail it, every other integer passes.
\<close>

record report_metadata =
  rm_generated_at :: string
  rm_monitoring_periods :: nat
  rm_kernel_analyses :: nat

record report =
  rep_report_metadata :: report_metadata
  rep_executive_summary :: executive_summary
  rep_memory_analysis :: "memory_stats option"
  rep_cpu_analysis :: "cpu_stats option"
  rep_swap_analysis :: "swap_stats option"
  rep_critical_events :: critical_rollup
  rep_oom_analysis :: oom_rollup
  rep_resource_exhaustion :: "exhaustion_rollup option"
  rep_recommendations :: "recommendation list"
  rep_leak_process_tracking :: "leak_tracking option"

text \<open>
  \<open>generated_at\<close> is the reading of \<open>datetime.now()\<close> at line 40. The values of the
  dictionary literal are computed in the order of its keys, the first exception ending
  the call.
\<close>

definition generate_report ::
    "float_lib \<Rightarrow> string \<Rightarrow> snapshot list \<Rightarrow> analysis list \<Rightarrow> int option \<Rightarrow>
     py_error + report" where
  "generate_report fl generated_at monitoring_data kernel_events leak_process_pid =
    bindE (generate_executive_summary monitoring_data kernel_events) (\<lambda>summary.
    bindE (analyze_memory fl monitoring_data) (\<lambda>memory_analysis.
    bindE (analyze_cpu fl monitoring_data) (\<lambda>cpu_analysis.
    bindE (analyze_swap fl monitoring_data) (\<lambda>swap_analysis.
    bindE (generate_recommendations monitoring_data kernel_events) (\<lambda>recommendations.
      let report =
            \<lparr> rep_report_metadata =
                \<lparr> rm_generated_at = generated_at,
                  rm_monitoring_periods = length monitoring_data,
                  rm_kernel_analyses = length kernel_events \<rparr>,
              rep_executive_summary = summary,
              rep_memory_analysis = memory_analysis,
              rep_cpu_analysis = cpu_analysis,
              rep_swap_analysis = swap_analysis,
              rep_critical_events = analyze_critical_events_report monitoring_data kernel_events,
              rep_oom_analysis = analyze_oom_events_report kernel_events,
              rep_resource_exhaustion = analyze_resource_exhaustion monitoring_data,
              rep_recommendations = recommendations,
              rep_leak_process_tracking = None \<rparr>
      in case leak_process_pid of
           None \<Rightarrow> Inr report
         | Some pid \<Rightarrow>
             if pid \<noteq> 0
             then bindE (track_leak_process fl monitoring_data pid) (\<lambda>tracking.
                    Inr (report \<lparr> rep_leak_process_tracking := Some tracking \<rparr>))
             else Inr report)))))"

section \<open>The trend classification as the specification words it\<close>

text \<open>
  The second definition of the trend follows the specification: the series is split at
  \<open>len(v) div 2\<close>, \<open>diff\<close> is the mean of the second half minus the mean of the first,
  both in the arithmetic of floats.
\<close>

definition mean :: "float_lib \<Rightarrow> real list \<Rightarrow> real" where
  "mean fl xs = fl_truediv fl (fl_sum fl xs) (length xs)"

definition trend_spec :: "float_lib \<Rightarrow> real list \<Rightarrow> trend" where
  "trend_spec fl v =
    (if length v < 2 then INSUFFICIENT_DATA
     else
       let firstHalf = take (length v div 2) v;
           secondHalf = drop (length v div 2) v;
           diff = fl_sub fl (mean fl secondHalf) (mean fl firstHalf)
       in if \<bar>diff\<bar> < 1 then STABLE
          else if diff > 5 then INCREASING
          else if diff < - 5 then DECREASING
          else if diff > 0 then SLIGHTLY_INCREASING
          else SLIGHTLY_DECREASING)"

section \<open>The roll-ups as the specification words them\<close>

text \<open>
  The union of the OOM events of all analyses in order, the number of events that name a
  given process, and the combined list of the critical roll-up: the entries derived from
  the snapshots, followed by every critical event of every analysis.
\<close>

definition union_oom_events :: "analysis list \<Rightarrow> oom_event list" where
  "union_oom_events kernel_events =
    concat (map (\<lambda>k. dict_get (an_oom_events k) []) kernel_events)"

definition kill_count :: "oom_event list \<Rightarrow> string \<Rightarrow> nat" where
  "kill_count events name = length (filter (\<lambda>e. oe_process_name e = Some name) events)"

definition combined_critical_list :: "snapshot list \<Rightarrow> analysis list \<Rightarrow> critical_entry list" where
  "combined_critical_list monitoring_data kernel_events =
    map (\<lambda>s. RESOURCE_CRITICAL (snap_timestamp s) (snapshot_critical_warnings s))
      (filter (\<lambda>s. snapshot_critical_warnings s \<noteq> []) monitoring_data)
    @ concat (map (\<lambda>k. map KernelCritical (dict_get (an_critical_events k) [])) kernel_events)"

section \<open>The scans as the specification words them\<close>

text \<open>
  A line is blank when all its characters are whitespace. The first pattern of an
  ordered list that matches a line; the outcome of one line in each scan: no event for a
  blank line and for a line that no pattern matches, otherwise what the parser makes of
  the line and the first matching pattern; and a scan as the outcomes of its lines in
  order, the clock passed along.
\<close>

definition blank :: "string \<Rightarrow> bool" where
  "blank line = list_all is_space line"

definition first_match :: "re_lib \<Rightarrow> string list \<Rightarrow> string \<Rightarrow> string option" where
  "first_match re patterns line = List.find (\<lambda>pattern. re_search_ci re pattern line) patterns"

definition oom_line_outcome :: "re_lib \<Rightarrow> clock \<Rightarrow> string \<Rightarrow> oom_event list \<times> clock" where
  "oom_line_outcome re clk line =
    (if blank line then ([], clk)
     else case first_match re oom_patterns line of
            None \<Rightarrow> ([], clk)
          | Some pattern \<Rightarrow>
              (case parse_oom_event re clk line pattern of
                 (None, clk') \<Rightarrow> ([], clk')
               | (Some event, clk') \<Rightarrow> ([event], clk')))"

definition critical_line_outcome ::
    "re_lib \<Rightarrow> clock \<Rightarrow> string \<Rightarrow> critical_event list \<times> clock" where
  "critical_line_outcome re clk line =
    (if blank line then ([], clk)
     else case first_match re critical_patterns line of
            None \<Rightarrow> ([], clk)
          | Some pattern \<Rightarrow>
              (case parse_critical_event re clk line pattern of
                 (None, clk') \<Rightarrow> ([], clk')
               | (Some event, clk') \<Rightarrow> ([event], clk')))"

fun scan_lines :: "(clock \<Rightarrow> string \<Rightarrow> 'e list \<times> clock) \<Rightarrow> clock \<Rightarrow> string list \<Rightarrow> 'e list \<times> clock"
where
  "scan_lines outcome clk [] = ([], clk)"
| "scan_lines outcome clk (line # rest) =
    (case outcome clk line of
       (events, clk') \<Rightarrow>
         (case scan_lines outcome clk' rest of
            (events', clk'') \<Rightarrow> (events @ events', clk'')))"

text \<open>An event with its timestamp blanked, to compare two runs in all other fields.\<close>

definition oom_sans_timestamp :: "oom_event \<Rightarrow> oom_event" where
  "oom_sans_timestamp e = e \<lparr> oe_timestamp := [] \<rparr>"

definition critical_sans_timestamp :: "critical_event \<Rightarrow> critical_event" where
  "critical_sans_timestamp e = e \<lparr> ce_timestamp := [] \<rparr>"

section \<open>The library on 8-bit strings\<close>

text \<open>
  An instance of the library for the regular expressions of the source, used to run the
  scans on concrete lines. A pattern of the two lists is a sequence of literal characters
  and \<open>.*\<close>; it is searched at every position, letters compared without case, \<open>.\<close>
  matching every character but the newline.
\<close>

datatype rx = Lit char | AnyStar

fun compile_pattern :: "string \<Rightarrow> rx list" where
  "compile_pattern [] = []"
| "compile_pattern [c] = [Lit c]"
| "compile_pattern (c # d # rest) =
    (if c = CHR ''.'' \<and> d = CHR ''*'' then AnyStar # compile_pattern rest
     else Lit c # compile_pattern (d # rest))"

fun rx_match_here :: "rx list \<Rightarrow> string \<Rightarrow> bool" where
  "rx_match_here [] s = True"
| "rx_match_here (Lit p # ps) [] = False"
| "rx_match_here (Lit p # ps) (c # cs) = (lower_char p = lower_char c \<and> rx_match_here ps cs)"
| "rx_match_here (AnyStar # ps) [] = rx_match_here ps []"
| "rx_match_here (AnyStar # ps) (c # cs) =
    (rx_match_here ps (c # cs) \<or> (c \<noteq> CHR 0x0A \<and> rx_match_here (AnyStar # ps) cs))"

fun rx_search :: "rx list \<Rightarrow> string \<Rightarrow> bool" where
  "rx_search p [] = rx_match_here p []"
| "rx_search p (c # cs) = (rx_match_here p (c # cs) \<or> rx_search p cs)"

text \<open>
  The five extraction expressions are sequences of character classes, each taken once,
  at most once, any number of times or at least once. Neighbouring repeated classes are
  disjoint, so the longest run is the only way to match and no backtracking is needed.
  \<open>greedy\<close> returns what is left of the string after the match.
\<close>

datatype rep = One | Opt | Star | Plus

fun greedy :: "((char \<Rightarrow> bool) \<times> rep) list \<Rightarrow> string \<Rightarrow> string option" where
  "greedy [] s = Some s"
| "greedy ((P, One) # ts) s =
    (case s of [] \<Rightarrow> None | c # cs \<Rightarrow> if P c then greedy ts cs else None)"
| "greedy ((P, Opt) # ts) s =
    (case s of [] \<Rightarrow> greedy ts [] | c # cs \<Rightarrow> if P c then greedy ts cs else greedy ts s)"
| "greedy ((P, Star) # ts) s = greedy ts (dropWhile P s)"
| "greedy ((P, Plus) # ts) s =
    (case s of [] \<Rightarrow> None | c # cs \<Rightarrow> if P c then greedy ts (dropWhile P cs) else None)"

definition group_here ::
    "((char \<Rightarrow> bool) \<times> rep) list \<Rightarrow> ((char \<Rightarrow> bool) \<times> rep) list \<Rightarrow> string \<Rightarrow> string option"
where
  "group_here before grp s =
    (case greedy before s of
       None \<Rightarrow> None
     | Some s1 \<Rightarrow>
         (case greedy grp s1 of
            None \<Rightarrow> None
          | Some s2 \<Rightarrow> Some (take (length s1 - length s2) s1)))"

fun search_first :: "(string \<Rightarrow> string option) \<Rightarrow> string \<Rightarrow> string option" where
  "search_first here [] = here []"
| "search_first here (c # cs) =
    (case here (c # cs) of Some g \<Rightarrow> Some g | None \<Rightarrow> search_first here cs)"

definition is_digit :: "char \<Rightarrow> bool" where
  "is_digit c = (let n = (of_char c :: nat) in 48 \<le> n \<and> n \<le> 57)"

definition lit :: "char \<Rightarrow> (char \<Rightarrow> bool) \<times> rep" where
  "lit c = ((\<lambda>x. x = c), One)"

definition lit_ci :: "char \<Rightarrow> (char \<Rightarrow> bool) \<times> rep" where
  "lit_ci c = ((\<lambda>x. lower_char x = lower_char c), One)"

definition digit :: "(char \<Rightarrow> bool) \<times> rep" where
  "digit = (is_digit, One)"

definition timestamp_rx :: "((char \<Rightarrow> bool) \<times> rep) list" where
  "timestamp_rx =
    [digit, digit, digit, digit, lit CHR ''-'', digit, digit, lit CHR ''-'', digit, digit,
     ((\<lambda>c. is_space c \<or> c = CHR ''T''), One),
     digit, digit, lit CHR '':'', digit, digit, lit CHR '':'', digit, digit]"

definition pid_rx :: "((char \<Rightarrow> bool) \<times> rep) list" where
  "pid_rx =
    map lit_ci ''pid''
    @ [(is_space, Star), ((\<lambda>c. c = CHR ''='' \<or> c = CHR '':''), Opt), (is_space, Star)]"

definition process_rx :: "((char \<Rightarrow> bool) \<times> rep) list" where
  "process_rx = map lit_ci ''process'' @ [(is_space, Plus)]"

definition oom_score_rx :: "((char \<Rightarrow> bool) \<times> rep) list" where
  "oom_score_rx =
    map lit_ci ''oom'' @ [((\<lambda>c. c = CHR ''_'' \<or> c = CHR ''-''), Opt)] @ map lit_ci ''score''
    @ [((\<lambda>c. c = CHR ''='' \<or> c = CHR '':''), Opt), (is_space, Star)]"

definition memory_here :: "string \<Rightarrow> string option" where
  "memory_here s =
    (case List.find (\<lambda>unit. group_here [] ([(is_digit, Plus), (is_space, Star)] @ map lit_ci unit) s
                            \<noteq> None)
            [''kB'', ''MB'', ''GB'', ''bytes'']
     of None \<Rightarrow> None
      | Some unit \<Rightarrow> group_here [] ([(is_digit, Plus), (is_space, Star)] @ map lit_ci unit) s)"

text \<open>
  \<open>int\<close> on a string of decimal digits; CPython refuses more than 4300 digits with
  \<open>ValueError\<close>.
\<close>

definition digits_int :: "string \<Rightarrow> py_error + int" where
  "digits_int g =
    (if 4300 < length g then Inl ValueError
     else Inr (fold (\<lambda>c n. 10 * n + (int (of_char c) - 48)) g 0))"

definition ascii_re :: re_lib where
  "ascii_re =
    \<lparr> re_search_ci = (\<lambda>pattern line. rx_search (compile_pattern pattern) line),
      find_timestamp = search_first (group_here [] timestamp_rx),
      find_pid = search_first (group_here pid_rx [(is_digit, Plus)]),
      find_process =
        search_first (group_here process_rx [((\<lambda>c. \<not> is_space c \<and> c \<noteq> CHR '',''), Plus)]),
      find_oom_score = search_first (group_here oom_score_rx [(is_digit, Plus)]),
      find_memory = search_first memory_here,
      py_int = digits_int \<rparr>"

section \<open>The arithmetic of doubles\<close>

text \<open>
  An instance of the float library, used to run the code on concrete series: IEEE 754
  binary64 with rounding to nearest, ties to even. \<open>round64 x\<close> is the double nearest to
  \<open>x\<close>: a multiple of \<open>2 ^ (e - 52)\<close>, where \<open>e\<close> is the exponent of \<open>x\<close> and at least
  -1022, so that the subnormal numbers are covered; the upper limit of the exponent is
  left out, a result beyond the largest double having no value here. \<open>sum\<close> starts from
  the integer 0 and rounds after every addition; \<open>round(x, 2)\<close> is the double nearest to
  the decimal with two places nearest to \<open>x\<close>.
\<close>

fun bit_length :: "nat \<Rightarrow> nat" where
  "bit_length n = (if n = 0 then 0 else Suc (bit_length (n div 2)))"

declare bit_length.simps [simp del]

definition exponent2 :: "real \<Rightarrow> int" where
  "exponent2 x =
    (if 1 \<le> \<bar>x\<bar> then int (bit_length (nat \<lfloor>\<bar>x\<bar>\<rfloor>)) - 1
     else - int (bit_length (nat (\<lceil>1 / \<bar>x\<bar>\<rceil> - 1))))"

definition pow2 :: "int \<Rightarrow> real" where
  "pow2 k = (if 0 \<le> k then 2 ^ nat k else 1 / 2 ^ nat (- k))"

definition round_half_even :: "real \<Rightarrow> int" where
  "round_half_even y =
    (let f = \<lfloor>y\<rfloor>; d = y - of_int f
     in if d < 1 / 2 then f else if 1 / 2 < d then f + 1
        else if even f then f else f + 1)"

definition round64 :: "real \<Rightarrow> real" where
  "round64 x =
    (if x = 0 then 0
     else let q = pow2 (max (exponent2 x) (- 1022) - 52)
          in of_int (round_half_even (x / q)) * q)"

definition binary64 :: float_lib where
  "binary64 =
    \<lparr> fl_sum = (\<lambda>xs. fold (\<lambda>x total. round64 (total + x)) xs 0),
      fl_truediv = (\<lambda>a n. round64 (a / real n)),
      fl_sub = (\<lambda>a b. round64 (a - b)),
      fl_round2 = (\<lambda>x. round64 (of_int (round_half_even (x * 100)) / 100)) \<rparr>"

section \<open>Example inputs\<close>

text \<open>
  A snapshot with the given memory percent, swap percent, cpu percent and available
  memory, and an analysis with the given event counts.
\<close>

definition example_snapshot :: "real \<Rightarrow> real \<Rightarrow> real \<Rightarrow> real \<Rightarrow> snapshot" where
  "example_snapshot m s c a =
    \<lparr> snap_timestamp = ''2024-01-01T00:00:00'',
      snap_memory = \<lparr> mem_total_mb = 8192, mem_available_mb = a, mem_used_mb = 8192 - a,
                      mem_percent = m, mem_free_mb = a, mem_cached_mb = 0,
                      mem_buffers_mb = 0 \<rparr>,
      snap_swap = \<lparr> swap_total_mb = 2048, swap_used_mb = 0, swap_free_mb = 2048,
                    swap_percent = s \<rparr>,
      snap_cpu = \<lparr> cpu_total_percent = c, cpu_cores = Some 1, cpu_per_core_percent = [c],
                   cpu_frequency_mhz = None \<rparr>,
      snap_load_average = \<lparr> load_1min = None, load_5min = None, load_15min = None \<rparr>,
      snap_top_processes = [],
      snap_leak_process = None \<rparr>"

definition example_analysis :: "int \<Rightarrow> int \<Rightarrow> analysis" where
  "example_analysis n_oom n_critical =
    \<lparr> an_timestamp = ''2024-01-01T00:00:00'', an_total_log_lines = 0,
      an_oom_events = Some [], an_critical_events = Some [],
      an_oom_events_count = Some n_oom, an_critical_events_count = Some n_critical \<rparr>"

section \<open>Example events\<close>

definition example_oom_event :: "string option \<Rightarrow> oom_event" where
  "example_oom_event name =
    \<lparr> oe_timestamp = ''2024-01-01 00:00:00'', oe_pattern = ''Out of memory'',
      oe_pid = None, oe_process_name = name, oe_oom_score = None, oe_memory_info = None,
      oe_raw_line = ''Out of memory'' \<rparr>"

definition example_oom_analysis :: "oom_event list \<Rightarrow> analysis" where
  "example_oom_analysis events =
    \<lparr> an_timestamp = ''2024-01-01T00:00:00'', an_total_log_lines = length events,
      an_oom_events = Some events, an_critical_events = Some [],
      an_oom_events_count = Some (int (length events)), an_critical_events_count = Some 0 \<rparr>"

section \<open>Example hosts\<close>

text \<open>
  A process that answers every query, a process whose memory query is refused, and hosts
  that list them.
\<close>

definition healthy_proc :: "int \<Rightarrow> real \<Rightarrow> proc" where
  "healthy_proc pid rss =
    \<lparr> p_pid = pid, p_memory_info = Inr rss, p_name = Inr ''worker'',
      p_memory_percent = Inr 1, p_cpu_percent = Inr 0, p_status = Inr ''running'' \<rparr>"

definition denied_proc :: "int \<Rightarrow> proc" where
  "denied_proc pid =
    \<lparr> p_pid = pid, p_memory_info = Inl AccessDenied, p_name = Inr ''guarded'',
      p_memory_percent = Inl AccessDenied, p_cpu_percent = Inr 0,
      p_status = Inr ''sleeping'' \<rparr>"

definition example_host :: "proc list \<Rightarrow> host" where
  "example_host procs =
    \<lparr> h_memory = snap_memory (example_snapshot 50 10 10 4000),
      h_swap = snap_swap (example_snapshot 50 10 10 4000),
      h_cpu = snap_cpu (example_snapshot 50 10 10 4000),
      h_load_average = snap_load_average (example_snapshot 50 10 10 4000),
      h_process_iter = procs,
      h_Process = (\<lambda>pid. case find (\<lambda>p. p_pid p = pid) procs of
                             None \<Rightarrow> Inl NoSuchProcess
                           | Some p \<Rightarrow> Inr p) \<rparr>"

definition example_clock :: "string \<Rightarrow> clock" where
  "example_clock t = \<lparr> readings = (\<lambda>k. t), calls = 0 \<rparr>"

section \<open>Properties\<close>

subsection \<open>Auxiliary facts\<close>

lemma bindE_Inr: "bindE (Inr x) f = f x"
  by (simp add: bindE_def)

lemma bindE_Inl: "bindE (Inl e) f = Inl e"
  by (simp add: bindE_def)

lemma py_truediv_pos: "0 < n \<Longrightarrow> py_truediv fl a n = Inr (fl_truediv fl a n)"
  by (simp add: py_truediv_def)

lemma py_max_Max: "xs \<noteq> [] \<Longrightarrow> py_max xs = Inr (Max (set xs))"
  by (cases xs) (simp_all add: py_max_def Max.set_eq_fold [symmetric])

lemma round64_one: "round64 1 = 1"
  by code_simp

lemma round64_two: "round64 2 = 2"
  by code_simp

lemma round_half_even_100: "round_half_even 100 = 100"
  by code_simp

lemma round_half_even_200: "round_half_even 200 = 200"
  by code_simp

lemma binary64_one_mb: "fl_round2 binary64 (fl_truediv binary64 1048576 (1024 * 1024)) = 1"
  by (simp add: binary64_def round64_one round_half_even_100)

lemma binary64_two_mb: "fl_round2 binary64 (fl_truediv binary64 2097152 (1024 * 1024)) = 2"
  by (simp add: binary64_def round64_two round_half_even_200)

subsection \<open>Thresholds of check\_critical\_conditions\<close>

text \<open>
  C1. For every snapshot the warnings come in the fixed order memory, swap, cpu,
  available memory, at most one per row (the ranks of the rows are strictly increasing
  along the list). The CRITICAL memory warning is there iff the memory percent exceeds
  90, the WARNING one iff it exceeds 75 but not 90; likewise swap with 80 and 50, cpu
  with 90 and 80; the CRITICAL available-memory warning is there iff fewer than 100 MB
  are available, and that row has no WARNING tier.
\<close>

theorem check_critical_conditions_tiers:
  "sorted_wrt (<) (map (row_rank \<circ> w_resource) (check_critical_conditions snapshot))
    \<and> (Warning CRITICAL Memory v \<in> set (check_critical_conditions snapshot) \<longleftrightarrow>
         v = mem_percent (snap_memory snapshot) \<and> mem_percent (snap_memory snapshot) > 90)
    \<and> (Warning WARNING Memory v \<in> set (check_critical_conditions snapshot) \<longleftrightarrow>
         v = mem_percent (snap_memory snapshot) \<and> \<not> mem_percent (snap_memory snapshot) > 90
         \<and> mem_percent (snap_memory snapshot) > 75)
    \<and> (Warning CRITICAL Swap v \<in> set (check_critical_conditions snapshot) \<longleftrightarrow>
         v = swap_percent (snap_swap snapshot) \<and> swap_percent (snap_swap snapshot) > 80)
    \<and> (Warning WARNING Swap v \<in> set (check_critical_conditions snapshot) \<longleftrightarrow>
         v = swap_percent (snap_swap snapshot) \<and> \<not> swap_percent (snap_swap snapshot) > 80
         \<and> swap_percent (snap_swap snapshot) > 50)
    \<and> (Warning CRITICAL Cpu v \<in> set (check_critical_conditions snapshot) \<longleftrightarrow>
         v = cpu_total_percent (snap_cpu snapshot) \<and> cpu_total_percent (snap_cpu snapshot) > 90)
    \<and> (Warning WARNING Cpu v \<in> set (check_critical_conditions snapshot) \<longleftrightarrow>
         v = cpu_total_percent (snap_cpu snapshot)
         \<and> \<not> cpu_total_percent (snap_cpu snapshot) > 90
         \<and> cpu_total_percent (snap_cpu snapshot) > 80)
    \<and> (Warning CRITICAL AvailableMemory v \<in> set (check_critical_conditions snapshot) \<longleftrightarrow>
         v = mem_available_mb (snap_memory snapshot)
         \<and> mem_available_mb (snap_memory snapshot) < 100)
    \<and> Warning WARNING AvailableMemory v \<notin> set (check_critical_conditions snapshot)"
  unfolding check_critical_conditions_def Let_def
  by (simp; fastforce)

theorem check_critical_conditions_tiers_witness:
  "Warning CRITICAL Memory 95 \<in> set (check_critical_conditions (example_snapshot 95 10 10 4000))
   \<and> Warning WARNING Memory 95 \<notin> set (check_critical_conditions (example_snapshot 95 10 10 4000))
   \<and> check_critical_conditions (example_snapshot 95 85 85 40) =
       [Warning CRITICAL Memory 95, Warning CRITICAL Swap 85, Warning WARNING Cpu 85,
        Warning CRITICAL AvailableMemory 40]"
proof -
  have "check_critical_conditions (example_snapshot 95 85 85 40) =
       [Warning CRITICAL Memory 95, Warning CRITICAL Swap 85, Warning WARNING Cpu 85,
        Warning CRITICAL AvailableMemory 40]"
    by (simp add: check_critical_conditions_def example_snapshot_def)
  then show ?thesis
    using check_critical_conditions_tiers [of "example_snapshot 95 10 10 4000" 95]
    by (simp add: example_snapshot_def)
qed

subsection \<open>Trend\<close>

text \<open>
  C2. For every float arithmetic and every series the trend computed by
  \<open>_calculate_trend\<close> is the one the specification describes, with the means and
  their difference computed by the same float operations, and the computation never
  raises; the second half is never shorter than the first. On doubles the examples of
  the specification evaluate as stated, a one-element series gives INSUFFICIENT\_DATA,
  and the series 61.4, 79.6, 53.2, whose difference of means is 5 over the reals and
  5.000000000000007 in doubles, is INCREASING.
\<close>

theorem calculate_trend_refines_spec:
  "calculate_trend fl v = Inr (trend_spec fl v)
   \<and> length (take (length v div 2) v) \<le> length (drop (length v div 2) v)
   \<and> calculate_trend binary64 [10, 10, 10, 10] = Inr STABLE
   \<and> calculate_trend binary64 [10, 10, 20, 20] = Inr INCREASING
   \<and> calculate_trend binary64 [50, 40] = Inr DECREASING
   \<and> calculate_trend fl [x] = Inr INSUFFICIENT_DATA
   \<and> calculate_trend binary64 (map round64 [614 / 10, 796 / 10, 532 / 10]) = Inr INCREASING"
proof -
  have general: "calculate_trend fl v = Inr (trend_spec fl v)"
  proof (cases "length v < 2")
    case True
    then show ?thesis by (simp add: calculate_trend_def trend_spec_def)
  next
    case False
    then have h1: "0 < length (take (length v div 2) v)"
      and h2: "0 < length (drop (length v div 2) v)" by auto
    show ?thesis
      using False
      unfolding calculate_trend_def trend_spec_def Let_def mean_def
        py_truediv_pos [OF h1] py_truediv_pos [OF h2] bindE_Inr
      by simp
  qed
  have halves: "length (take (length v div 2) v) \<le> length (drop (length v div 2) v)"
    by simp
  have e1: "calculate_trend binary64 [10, 10, 10, 10] = Inr STABLE"
    by code_simp
  have e2: "calculate_trend binary64 [10, 10, 20, 20] = Inr INCREASING"
    by code_simp
  have e3: "calculate_trend binary64 [50, 40] = Inr DECREASING"
    by code_simp
  have e4: "calculate_trend fl [x] = Inr INSUFFICIENT_DATA"
    by (simp add: calculate_trend_def)
  have e5: "calculate_trend binary64 (map round64 [614 / 10, 796 / 10, 532 / 10]) = Inr INCREASING"
    by code_simp
  from general halves e1 e2 e3 e4 e5 show ?thesis by blast
qed

subsection \<open>Status of the executive summary\<close>

text \<open>
  C3. For every non-empty snapshot history and every analysis history the executive
  summary is the full dictionary, and its status is CRITICAL iff the maximal memory
  percent exceeds 90 or the maximal swap percent exceeds 80 or the sum of the OOM counts
  is positive; otherwise WARNING iff the maximal memory percent exceeds 75 or the
  maximal swap percent exceeds 50 or the sum of the critical counts is positive;
  otherwise NORMAL.
\<close>

theorem executive_summary_status:
  fixes monitoring_data :: "snapshot list" and kernel_events :: "analysis list"
  assumes "monitoring_data \<noteq> []"
  defines "maxMemory \<equiv> Max (set (map (\<lambda>d. mem_percent (snap_memory d)) monitoring_data))"
    and "maxSwap \<equiv> Max (set (map (\<lambda>d. swap_percent (snap_swap d)) monitoring_data))"
    and "totalOom \<equiv> (\<Sum>e\<leftarrow>kernel_events. dict_get (an_oom_events_count e) 0)"
    and "totalCritical \<equiv> (\<Sum>e\<leftarrow>kernel_events. dict_get (an_critical_events_count e) 0)"
  shows "\<exists>s. generate_executive_summary monitoring_data kernel_events = Inr (Summary s)
    \<and> (sum_status s = STATUS_CRITICAL \<longleftrightarrow> maxMemory > 90 \<or> maxSwap > 80 \<or> totalOom > 0)
    \<and> (sum_status s = STATUS_WARNING \<longleftrightarrow>
         \<not> (maxMemory > 90 \<or> maxSwap > 80 \<or> totalOom > 0)
         \<and> (maxMemory > 75 \<or> maxSwap > 50 \<or> totalCritical > 0))
    \<and> (sum_status s = NORMAL \<longleftrightarrow>
         \<not> (maxMemory > 90 \<or> maxSwap > 80 \<or> totalOom > 0)
         \<and> \<not> (maxMemory > 75 \<or> maxSwap > 50 \<or> totalCritical > 0))"
proof -
  have ne: "map (\<lambda>d. mem_percent (snap_memory d)) monitoring_data \<noteq> []"
    "map (\<lambda>d. cpu_total_percent (snap_cpu d)) monitoring_data \<noteq> []"
    "map (\<lambda>d. swap_percent (snap_swap d)) monitoring_data \<noteq> []"
    using assms(1) by simp_all
  show ?thesis
    unfolding generate_executive_summary_def maxMemory_def maxSwap_def totalOom_def
      totalCritical_def py_max_Max [OF ne(1)] py_max_Max [OF ne(2)] py_max_Max [OF ne(3)]
      bindE_Inr Let_def
    using assms(1) by simp
qed

theorem executive_summary_status_witness:
  "[example_snapshot 95 10 10 4000] \<noteq> []
   \<and> (\<exists>s. generate_executive_summary [example_snapshot 95 10 10 4000] [example_analysis 0 0]
            = Inr (Summary s) \<and> sum_status s = STATUS_CRITICAL)
   \<and> (\<exists>s. generate_executive_summary [example_snapshot 80 10 10 4000] [example_analysis 0 0]
            = Inr (Summary s) \<and> sum_status s = STATUS_WARNING)
   \<and> (\<exists>s. generate_executive_summary [example_snapshot 50 10 10 4000] [example_analysis 0 0]
            = Inr (Summary s) \<and> sum_status s = NORMAL)"
proof -
  have a: "[example_snapshot 95 10 10 4000] \<noteq> []" by simp
  have b: "[example_snapshot 80 10 10 4000] \<noteq> []" by simp
  have c: "[example_snapshot 50 10 10 4000] \<noteq> []" by simp
  obtain s1 where s1:
    "generate_executive_summary [example_snapshot 95 10 10 4000] [example_analysis 0 0]
       = Inr (Summary s1)"
    "sum_status s1 = STATUS_CRITICAL \<longleftrightarrow>
       Max (set (map (\<lambda>d. mem_percent (snap_memory d)) [example_snapshot 95 10 10 4000])) > 90
       \<or> Max (set (map (\<lambda>d. swap_percent (snap_swap d)) [example_snapshot 95 10 10 4000])) > 80
       \<or> (\<Sum>e\<leftarrow>[example_analysis 0 0]. dict_get (an_oom_events_count e) 0) > 0"
    using executive_summary_status [OF a, of "[example_analysis 0 0]"] by blast
  have 1: "sum_status s1 = STATUS_CRITICAL"
    using s1(2) by (simp add: example_snapshot_def)
  obtain s2 where s2:
    "generate_executive_summary [example_snapshot 80 10 10 4000] [example_analysis 0 0]
       = Inr (Summary s2)"
    "sum_status s2 = STATUS_WARNING \<longleftrightarrow>
       \<not> (Max (set (map (\<lambda>d. mem_percent (snap_memory d)) [example_snapshot 80 10 10 4000])) > 90
       \<or> Max (set (map (\<lambda>d. swap_percent (snap_swap d)) [example_snapshot 80 10 10 4000])) > 80
       \<or> (\<Sum>e\<leftarrow>[example_analysis 0 0]. dict_get (an_oom_events_count e) 0) > 0)
       \<and> (Max (set (map (\<lambda>d. mem_percent (snap_memory d)) [example_snapshot 80 10 10 4000])) > 75
       \<or> Max (set (map (\<lambda>d. swap_percent (snap_swap d)) [example_snapshot 80 10 10 4000])) > 50
       \<or> (\<Sum>e\<leftarrow>[example_analysis 0 0]. dict_get (an_critical_events_count e) 0) > 0)"
    using executive_summary_status [OF b, of "[example_analysis 0 0]"] by blast
  have 2: "sum_status s2 = STATUS_WARNING"
    using s2(2) by (simp add: example_snapshot_def example_analysis_def dict_get_def)
  obtain s3 where s3:
    "generate_executive_summary [example_snapshot 50 10 10 4000] [example_analysis 0 0]
       = Inr (Summary s3)"
    "sum_status s3 = NORMAL \<longleftrightarrow>
       \<not> (Max (set (map (\<lambda>d. mem_percent (snap_memory d)) [example_snapshot 50 10 10 4000])) > 90
       \<or> Max (set (map (\<lambda>d. swap_percent (snap_swap d)) [example_snapshot 50 10 10 4000])) > 80
       \<or> (\<Sum>e\<leftarrow>[example_analysis 0 0]. dict_get (an_oom_events_count e) 0) > 0)
       \<and> \<not> (Max (set (map (\<lambda>d. mem_percent (snap_memory d)) [example_snapshot 50 10 10 4000])) > 75
       \<or> Max (set (map (\<lambda>d. swap_percent (snap_swap d)) [example_snapshot 50 10 10 4000])) > 50
       \<or> (\<Sum>e\<leftarrow>[example_analysis 0 0]. dict_get (an_critical_events_count e) 0) > 0)"
    using executive_summary_status [OF c, of "[example_analysis 0 0]"] by blast
  have 3: "sum_status s3 = NORMAL"
    using s3(2) by (simp add: example_snapshot_def example_analysis_def dict_get_def)
  from a s1(1) 1 s2(1) 2 s3(1) 3 show ?thesis by blast
qed

subsection \<open>Loops that append\<close>

lemma fold_append_concat:
  "fold (\<lambda>x acc. acc @ f x) xs acc = acc @ concat (map f xs)"
  by (induction xs arbitrary: acc) simp_all

lemma fold_append_filter:
  "fold (\<lambda>x acc. if P x then acc @ [g x] else acc) xs acc = acc @ map g (filter P xs)"
  by (induction xs arbitrary: acc) simp_all

lemma fold_snoc_map: "fold (\<lambda>x acc. acc @ [g x]) xs acc = acc @ map g xs"
  by (induction xs arbitrary: acc) simp_all

lemma all_oom_events_concat: "all_oom_events ks = union_oom_events ks"
  by (simp add: all_oom_events_def union_oom_events_def fold_append_concat)

lemma fold_nested_snoc:
  "fold (\<lambda>k. fold (\<lambda>e acc'. acc' @ [g e]) (h k)) ks acc
     = acc @ concat (map (\<lambda>k. map g (h k)) ks)"
  by (induction ks arbitrary: acc) (simp_all add: fold_snoc_map)

subsection \<open>Critical-event roll-up\<close>

lemma analyze_critical_events_report_combined:
  "analyze_critical_events_report ms ks =
    \<lparr> cr_total_critical_events = length (combined_critical_list ms ks),
      cr_events = take 50 (combined_critical_list ms ks) \<rparr>"
  by (simp add: analyze_critical_events_report_def Let_def fold_append_filter fold_nested_snoc
      combined_critical_list_def)

text \<open>
  C9. The reported total of the critical roll-up is the length of the whole combined
  list (snapshot entries, then all kernel critical events), the returned events are its
  first 50 entries; so when more than 50 entries are combined, the total exceeds the
  number of returned events.
\<close>

theorem critical_rollup_total_and_truncation:
  "cr_total_critical_events (analyze_critical_events_report monitoring_data kernel_events)
     = length (combined_critical_list monitoring_data kernel_events)
   \<and> cr_events (analyze_critical_events_report monitoring_data kernel_events)
     = take 50 (combined_critical_list monitoring_data kernel_events)
   \<and> (50 < length (combined_critical_list monitoring_data kernel_events) \<longrightarrow>
        length (cr_events (analyze_critical_events_report monitoring_data kernel_events))
        < cr_total_critical_events (analyze_critical_events_report monitoring_data kernel_events))"
  unfolding analyze_critical_events_report_combined by simp

theorem critical_rollup_total_and_truncation_witness:
  "50 < length (combined_critical_list (replicate 51 (example_snapshot 95 10 10 4000)) [])
   \<and> cr_total_critical_events
        (analyze_critical_events_report (replicate 51 (example_snapshot 95 10 10 4000)) []) = 51
   \<and> length (cr_events
        (analyze_critical_events_report (replicate 51 (example_snapshot 95 10 10 4000)) [])) = 50"
proof -
  have w: "snapshot_critical_warnings (example_snapshot 95 10 10 4000) \<noteq> []"
    by (simp add: snapshot_critical_warnings_def example_snapshot_def)
  have len: "length (combined_critical_list (replicate 51 (example_snapshot 95 10 10 4000)) [])
      = 51"
    by (simp add: combined_critical_list_def w)
  show ?thesis
    using critical_rollup_total_and_truncation
      [of "replicate 51 (example_snapshot 95 10 10 4000)" "[]"] len
    by simp
qed

subsection \<open>OOM roll-up\<close>

lemma map_of_bump:
  "map_of (bump k d) n =
    (if n = k then Some (case map_of d k of None \<Rightarrow> 1 | Some c \<Rightarrow> c + 1) else map_of d n)"
  by (induction k d rule: bump.induct) auto

lemma keys_bump: "fst ` set (bump k d) = insert k (fst ` set d)"
  by (induction k d rule: bump.induct) auto

lemma distinct_bump: "distinct (map fst d) \<Longrightarrow> distinct (map fst (bump k d))"
  by (induction k d rule: bump.induct) (auto simp: keys_bump)

lemma distinct_count_step: "distinct (map fst d) \<Longrightarrow> distinct (map fst (count_step e d))"
  by (simp add: count_step_def distinct_bump split: option.splits)

lemma distinct_fold_count: "distinct (map fst d) \<Longrightarrow> distinct (map fst (fold count_step es d))"
  by (induction es arbitrary: d) (simp_all add: distinct_count_step)

lemma map_of_count_step:
  "map_of (count_step e d) n =
    (if n \<noteq> [] \<and> oe_process_name e = Some n
     then Some ((case map_of d n of None \<Rightarrow> 0 | Some c \<Rightarrow> c) + 1)
     else map_of d n)"
  by (auto simp: count_step_def map_of_bump split: option.splits)

lemma kill_count_Cons:
  "kill_count (e # es) n = (if oe_process_name e = Some n then 1 else 0) + kill_count es n"
  by (simp add: kill_count_def)

lemma map_of_fold_count:
  "map_of (fold count_step es d) n =
    (if n \<noteq> [] \<and> 0 < kill_count es n
     then Some ((case map_of d n of None \<Rightarrow> 0 | Some c \<Rightarrow> c) + kill_count es n)
     else map_of d n)"
proof (induction es arbitrary: d)
  case Nil
  then show ?case by (simp add: kill_count_def)
next
  case (Cons e es)
  have "map_of (fold count_step (e # es) d) n = map_of (fold count_step es (count_step e d)) n"
    by simp
  also have "\<dots> =
    (if n \<noteq> [] \<and> 0 < kill_count es n
     then Some ((case map_of (count_step e d) n of None \<Rightarrow> 0 | Some c \<Rightarrow> c) + kill_count es n)
     else map_of (count_step e d) n)"
    by (rule Cons.IH)
  also have "\<dots> =
    (if n \<noteq> [] \<and> 0 < kill_count (e # es) n
     then Some ((case map_of d n of None \<Rightarrow> 0 | Some c \<Rightarrow> c) + kill_count (e # es) n)
     else map_of d n)"
    by (simp add: map_of_count_step kill_count_Cons split: option.splits)
  finally show ?case .
qed

text \<open>
  C7. The OOM roll-up works on the union, in order, of the OOM events of all analyses.
  When the union is empty it reports no detection and total 0. Otherwise it reports the
  length of the union as total, a table with one entry per process name, each non-empty
  name that occurs mapped to the number of events naming it (events without a name, or
  with an empty one, are in no entry but are counted in the total), and the last 10
  events of the union in their order.
\<close>

theorem oom_rollup_counts:
  "(union_oom_events kernel_events = [] \<longrightarrow>
      analyze_oom_events_report kernel_events =
        \<lparr> or_oom_events_detected = False, or_total_oom_events = 0,
          or_processes_killed = None, or_recent_oom_events = None \<rparr>)
   \<and> (union_oom_events kernel_events \<noteq> [] \<longrightarrow>
      or_oom_events_detected (analyze_oom_events_report kernel_events)
      \<and> or_total_oom_events (analyze_oom_events_report kernel_events)
          = length (union_oom_events kernel_events)
      \<and> (\<exists>killed. or_processes_killed (analyze_oom_events_report kernel_events) = Some killed
            \<and> distinct (map fst killed)
            \<and> (\<forall>name. map_of killed name =
                 (if name \<noteq> [] \<and> 0 < kill_count (union_oom_events kernel_events) name
                  then Some (kill_count (union_oom_events kernel_events) name) else None)))
      \<and> or_recent_oom_events (analyze_oom_events_report kernel_events)
          = Some (drop (length (union_oom_events kernel_events) - 10)
                    (union_oom_events kernel_events)))"
  unfolding analyze_oom_events_report_def all_oom_events_concat Let_def
  by (simp add: distinct_fold_count map_of_fold_count)

theorem oom_rollup_counts_witness:
  "union_oom_events
      [example_oom_analysis [example_oom_event (Some ''firefox''), example_oom_event None],
       example_oom_analysis [example_oom_event (Some ''chrome''),
                             example_oom_event (Some ''firefox'')]] \<noteq> []
   \<and> or_total_oom_events (analyze_oom_events_report
      [example_oom_analysis [example_oom_event (Some ''firefox''), example_oom_event None],
       example_oom_analysis [example_oom_event (Some ''chrome''),
                             example_oom_event (Some ''firefox'')]]) = 4
   \<and> or_processes_killed (analyze_oom_events_report
      [example_oom_analysis [example_oom_event (Some ''firefox''), example_oom_event None],
       example_oom_analysis [example_oom_event (Some ''chrome''),
                             example_oom_event (Some ''firefox'')]])
       = Some [(''firefox'', 2), (''chrome'', 1)]
   \<and> or_total_oom_events (analyze_oom_events_report
      [example_oom_analysis [example_oom_event (Some ''firefox'')],
       example_oom_analysis [example_oom_event (Some ''chrome''),
                             example_oom_event (Some ''firefox'')]]) = 3
   \<and> or_processes_killed (analyze_oom_events_report
      [example_oom_analysis [example_oom_event (Some ''firefox'')],
       example_oom_analysis [example_oom_event (Some ''chrome''),
                             example_oom_event (Some ''firefox'')]])
       = Some [(''firefox'', 2), (''chrome'', 1)]"
proof -
  let ?ks = "[example_oom_analysis [example_oom_event (Some ''firefox''), example_oom_event None],
       example_oom_analysis [example_oom_event (Some ''chrome''),
                             example_oom_event (Some ''firefox'')]]"
  have ne: "union_oom_events ?ks \<noteq> []"
    by (simp add: union_oom_events_def example_oom_analysis_def dict_get_def)
  have total: "or_total_oom_events (analyze_oom_events_report ?ks) = 4"
    using oom_rollup_counts [of ?ks] ne
    by (simp add: union_oom_events_def example_oom_analysis_def dict_get_def)
  have killed: "or_processes_killed (analyze_oom_events_report ?ks)
      = Some [(''firefox'', 2), (''chrome'', 1)]"
    by (simp add: analyze_oom_events_report_def all_oom_events_def example_oom_analysis_def
        example_oom_event_def dict_get_def count_step_def)
  have ex: "or_total_oom_events (analyze_oom_events_report
      [example_oom_analysis [example_oom_event (Some ''firefox'')],
       example_oom_analysis [example_oom_event (Some ''chrome''),
                             example_oom_event (Some ''firefox'')]]) = 3
   \<and> or_processes_killed (analyze_oom_events_report
      [example_oom_analysis [example_oom_event (Some ''firefox'')],
       example_oom_analysis [example_oom_event (Some ''chrome''),
                             example_oom_event (Some ''firefox'')]])
       = Some [(''firefox'', 2), (''chrome'', 1)]"
    by (simp add: analyze_oom_events_report_def all_oom_events_def example_oom_analysis_def
        example_oom_event_def dict_get_def count_step_def)
  from ne total killed ex show ?thesis by blast
qed

subsection \<open>Report on an empty snapshot history\<close>

text \<open>
  C4. For every analysis history and every optional process id, report generation on an
  empty snapshot history returns a report (no exception, in particular no division by
  zero and no maximum of an empty list); its executive summary is the no-data one and
  its memory, cpu and swap blocks are empty dictionaries.
\<close>

theorem generate_report_empty_history:
  "\<exists>r. generate_report fl generated_at [] kernel_events leak_process_pid = Inr r
     \<and> rep_executive_summary r = NoData
     \<and> rep_memory_analysis r = None
     \<and> rep_cpu_analysis r = None
     \<and> rep_swap_analysis r = None"
  by (simp add: generate_report_def generate_executive_summary_def analyze_memory_def
      analyze_cpu_def analyze_swap_def generate_recommendations_def track_leak_process_def
      bindE_def Let_def split: option.splits)

subsection \<open>Processes whose inspection fails\<close>

text \<open>
  C5. The claim is that a process whose inspection fails leaves no record and never makes
  the enclosing call fail. On a host with one healthy process and one whose memory query
  is refused, \<open>_get_process_dict\<close> catches the refusal itself and returns the empty
  dictionary, so the handler of line 102 never runs and the empty dictionary is
  appended: the enumeration then raises \<open>KeyError\<close> in the sort of line 106, and so does
  \<open>collect_snapshot\<close>; with the refused process as the tracked pid the list holds the
  empty dictionary, and the snapshot carries it as its tracked process.
\<close>

theorem failed_inspection_leaves_empty_record:
  "get_process_info binary64 (example_host [healthy_proc 1 1048576, denied_proc 2]) None
      = Inl KeyError
   \<and> collect_snapshot binary64 (example_host [healthy_proc 1 1048576, denied_proc 2])
        (example_clock ''2024-01-01T00:00:00'') None = Inl KeyError
   \<and> get_process_info binary64 (example_host [healthy_proc 1 1048576, denied_proc 2]) (Some 2)
        = Inr [EmptyDict]
   \<and> (\<exists>s c. collect_snapshot binary64
          ((example_host [healthy_proc 1 1048576]) \<lparr> h_Process := (\<lambda>pid. Inr (denied_proc pid)) \<rparr>)
          (example_clock ''2024-01-01T00:00:00'') (Some 2) = Inr (s, c)
        \<and> snap_leak_process s = Some EmptyDict)"
proof -
  have a: "get_process_info binary64 (example_host [healthy_proc 1 1048576, denied_proc 2]) None
      = Inl KeyError"
    by (simp add: get_process_info_def example_host_def healthy_proc_def denied_proc_def
        get_process_dict_def bindE_def sort_by_memory_def memory_mb_key_def)
  have b: "collect_snapshot binary64 (example_host [healthy_proc 1 1048576, denied_proc 2])
        (example_clock ''2024-01-01T00:00:00'') None = Inl KeyError"
    by (simp add: collect_snapshot_def a bindE_def now_def example_clock_def)
  have c: "get_process_info binary64 (example_host [healthy_proc 1 1048576, denied_proc 2])
        (Some 2) = Inr [EmptyDict]"
    by (simp add: get_process_info_def example_host_def healthy_proc_def denied_proc_def
        get_process_dict_def bindE_def)
  have d1: "get_process_info binary64
          ((example_host [healthy_proc 1 1048576]) \<lparr> h_Process := (\<lambda>pid. Inr (denied_proc pid)) \<rparr>)
          None = Inr [ProcDict \<lparr> pi_pid = 1, pi_name = ''worker'', pi_memory_mb = 1,
                 pi_memory_percent = 1, pi_cpu_percent = 0, pi_status = ''running'' \<rparr>]"
    using binary64_one_mb
    by (simp add: get_process_info_def example_host_def healthy_proc_def
        get_process_dict_def bindE_def sort_by_memory_def memory_mb_key_def)
  have d2: "get_process_info binary64
          ((example_host [healthy_proc 1 1048576]) \<lparr> h_Process := (\<lambda>pid. Inr (denied_proc pid)) \<rparr>)
          (Some 2) = Inr [EmptyDict]"
    by (simp add: get_process_info_def example_host_def denied_proc_def
        get_process_dict_def bindE_def)
  have d: "\<exists>s c. collect_snapshot binary64
          ((example_host [healthy_proc 1 1048576]) \<lparr> h_Process := (\<lambda>pid. Inr (denied_proc pid)) \<rparr>)
          (example_clock ''2024-01-01T00:00:00'') (Some 2) = Inr (s, c)
        \<and> snap_leak_process s = Some EmptyDict"
    by (simp add: collect_snapshot_def d1 d2 bindE_def now_def example_clock_def)
  from a b c d show ?thesis by blast
qed

subsection \<open>A tracked pid of 0\<close>

text \<open>
  C10. A tracked pid of 0 acts as no pid: \<open>get_process_info\<close> with pid 0 returns what
  the enumeration returns, whatever the process table says about pid 0;
  \<open>collect_snapshot\<close> with pid 0 equals the call without a pid, and a snapshot it returns
  has no tracked process; \<open>generate_report\<close> with pid 0 equals the call without a pid,
  and a report it returns has no tracked-process roll-up.
\<close>

theorem pid_zero_is_no_pid:
  "get_process_info fl (host \<lparr> h_Process := lookup \<rparr>) (Some 0) = get_process_info fl host None
   \<and> collect_snapshot fl host clk (Some 0) = collect_snapshot fl host clk None
   \<and> (\<forall>s c. collect_snapshot fl host clk (Some 0) = Inr (s, c) \<longrightarrow> snap_leak_process s = None)
   \<and> generate_report fl generated_at monitoring_data kernel_events (Some 0)
       = generate_report fl generated_at monitoring_data kernel_events None
   \<and> (\<forall>r. generate_report fl generated_at monitoring_data kernel_events (Some 0) = Inr r \<longrightarrow>
          rep_leak_process_tracking r = None)"
proof -
  have a: "get_process_info fl (host \<lparr> h_Process := lookup \<rparr>) (Some 0)
      = get_process_info fl host None"
    by (simp add: get_process_info_def)
  have b: "collect_snapshot fl host clk (Some 0) = collect_snapshot fl host clk None"
    by (simp add: collect_snapshot_def)
  have c: "\<forall>s c. collect_snapshot fl host clk (Some 0) = Inr (s, c) \<longrightarrow> snap_leak_process s = None"
    by (auto simp: collect_snapshot_def bindE_def Let_def split: prod.splits sum.splits)
  have d: "generate_report fl generated_at monitoring_data kernel_events (Some 0)
       = generate_report fl generated_at monitoring_data kernel_events None"
    by (simp add: generate_report_def)
  have e: "\<forall>r. generate_report fl generated_at monitoring_data kernel_events (Some 0) = Inr r \<longrightarrow>
          rep_leak_process_tracking r = None"
    by (auto simp: generate_report_def bindE_def Let_def split: sum.splits)
  from a b c d e show ?thesis by blast
qed

theorem pid_zero_is_no_pid_witness:
  "(\<exists>s c. collect_snapshot binary64 (example_host [healthy_proc 0 1048576, healthy_proc 7 2097152])
             (example_clock ''2024-01-01T00:00:00'') (Some 0) = Inr (s, c)
           \<and> snap_leak_process s = None
           \<and> map (\<lambda>d. proc_get d pi_memory_mb) (snap_top_processes s) = [2, 1])
   \<and> get_process_info binary64
         (example_host [healthy_proc 0 1048576, healthy_proc 7 2097152]) (Some 0)
       = get_process_info binary64
           (example_host [healthy_proc 0 1048576, healthy_proc 7 2097152]) None
   \<and> (\<exists>r. generate_report binary64 ''2024-01-01T00:00:00'' [example_snapshot 50 10 10 4000] []
             (Some 0) = Inr r \<and> rep_leak_process_tracking r = None)"
proof -
  let ?h = "example_host [healthy_proc 0 1048576, healthy_proc 7 2097152]"
  let ?clk = "example_clock ''2024-01-01T00:00:00''"
  have top: "get_process_info binary64 ?h None
      = Inr [ProcDict \<lparr> pi_pid = 7, pi_name = ''worker'', pi_memory_mb = 2,
               pi_memory_percent = 1, pi_cpu_percent = 0, pi_status = ''running'' \<rparr>,
             ProcDict \<lparr> pi_pid = 0, pi_name = ''worker'', pi_memory_mb = 1,
               pi_memory_percent = 1, pi_cpu_percent = 0, pi_status = ''running'' \<rparr>]"
    using binary64_one_mb binary64_two_mb
    by (simp add: get_process_info_def example_host_def healthy_proc_def
        get_process_dict_def bindE_def sort_by_memory_def memory_mb_key_def)
  obtain s c where sc: "collect_snapshot binary64 ?h ?clk (Some 0) = Inr (s, c)"
    and tops: "snap_top_processes s = [ProcDict \<lparr> pi_pid = 7, pi_name = ''worker'', pi_memory_mb = 2,
               pi_memory_percent = 1, pi_cpu_percent = 0, pi_status = ''running'' \<rparr>,
             ProcDict \<lparr> pi_pid = 0, pi_name = ''worker'', pi_memory_mb = 1,
               pi_memory_percent = 1, pi_cpu_percent = 0, pi_status = ''running'' \<rparr>]"
    by (simp add: collect_snapshot_def top bindE_def now_def example_clock_def)
  have leak: "snap_leak_process s = None"
    using pid_zero_is_no_pid [where fl = binary64 and host = ?h and clk = ?clk] sc by simp
  have 1: "\<exists>s c. collect_snapshot binary64 ?h ?clk (Some 0) = Inr (s, c)
           \<and> snap_leak_process s = None
           \<and> map (\<lambda>d. proc_get d pi_memory_mb) (snap_top_processes s) = [2, 1]"
    using sc leak tops by (simp add: proc_get_def)
  have 2: "get_process_info binary64 ?h (Some 0) = get_process_info binary64 ?h None"
    using pid_zero_is_no_pid [where fl = binary64 and host = ?h and lookup = "h_Process ?h"]
    by simp
  obtain r where r: "generate_report binary64 ''2024-01-01T00:00:00''
             [example_snapshot 50 10 10 4000] [] (Some 0) = Inr r"
    by (simp add: generate_report_def generate_executive_summary_def analyze_memory_def
        analyze_cpu_def analyze_swap_def generate_recommendations_def calculate_trend_def
        py_max_def py_min_def py_truediv_def bindE_def Let_def)
  have 3: "\<exists>r. generate_report binary64 ''2024-01-01T00:00:00''
             [example_snapshot 50 10 10 4000] [] (Some 0) = Inr r
           \<and> rep_leak_process_tracking r = None"
    using pid_zero_is_no_pid [where fl = binary64
        and generated_at = "''2024-01-01T00:00:00''"
        and monitoring_data = "[example_snapshot 50 10 10 4000]" and kernel_events = "[]"] r
    by blast
  from 1 2 3 show ?thesis by blast
qed

subsection \<open>The scans of the kernel log\<close>

lemma strip_empty_iff: "py_strip s = [] \<longleftrightarrow> blank s"
proof -
  have "py_strip s = [] \<longleftrightarrow> dropWhile is_space (rev (dropWhile is_space s)) = []"
    by (simp add: py_strip_def)
  also have "\<dots> \<longleftrightarrow> (\<forall>x \<in> set (dropWhile is_space s). is_space x)"
    by (simp add: dropWhile_eq_Nil_conv)
  also have "\<dots> \<longleftrightarrow> dropWhile is_space s = []"
  proof
    assume a: "\<forall>x \<in> set (dropWhile is_space s). is_space x"
    show "dropWhile is_space s = []"
    proof (rule ccontr)
      assume ne: "dropWhile is_space s \<noteq> []"
      then have "\<not> is_space (hd (dropWhile is_space s))" by (rule hd_dropWhile)
      moreover have "hd (dropWhile is_space s) \<in> set (dropWhile is_space s)"
        using ne by simp
      ultimately show False using a by blast
    qed
  qed (auto dest: set_dropWhileD)
  also have "\<dots> \<longleftrightarrow> blank s"
    by (simp add: dropWhile_eq_Nil_conv blank_def list_all_iff)
  finally show ?thesis .
qed

lemma oom_pattern_loop_find:
  "oom_pattern_loop re clk line ps acc =
    (case List.find (\<lambda>p. re_search_ci re p line) ps of
       None \<Rightarrow> (acc, clk)
     | Some p \<Rightarrow>
         (case parse_oom_event re clk line p of
            (None, c) \<Rightarrow> (acc, c)
          | (Some e, c) \<Rightarrow> (acc @ [e], c)))"
  by (induction ps) simp_all

lemma critical_pattern_loop_find:
  "critical_pattern_loop re clk line ps acc =
    (case List.find (\<lambda>p. re_search_ci re p line) ps of
       None \<Rightarrow> (acc, clk)
     | Some p \<Rightarrow>
         (case parse_critical_event re clk line p of
            (None, c) \<Rightarrow> (acc, c)
          | (Some e, c) \<Rightarrow> (acc @ [e], c)))"
  by (induction ps) simp_all

lemma oom_pattern_loop_outcome:
  "py_strip line \<noteq> [] \<Longrightarrow>
   oom_pattern_loop re clk line oom_patterns acc =
     (case oom_line_outcome re clk line of (es, c) \<Rightarrow> (acc @ es, c))"
  by (simp add: oom_pattern_loop_find oom_line_outcome_def first_match_def strip_empty_iff
      split: option.splits prod.splits)

lemma critical_pattern_loop_outcome:
  "py_strip line \<noteq> [] \<Longrightarrow>
   critical_pattern_loop re clk line critical_patterns acc =
     (case critical_line_outcome re clk line of (es, c) \<Rightarrow> (acc @ es, c))"
  by (simp add: critical_pattern_loop_find critical_line_outcome_def first_match_def
      strip_empty_iff split: option.splits prod.splits)

lemma oom_line_loop_scan:
  "oom_line_loop re clk logs acc =
    (case scan_lines (oom_line_outcome re) clk logs of (es, c) \<Rightarrow> (acc @ es, c))"
proof (induction logs arbitrary: clk acc)
  case Nil
  then show ?case by simp
next
  case (Cons line rest)
  show ?case
  proof (cases "py_strip line = []")
    case True
    then have "oom_line_outcome re clk line = ([], clk)"
      by (simp add: oom_line_outcome_def strip_empty_iff)
    with True show ?thesis by (simp add: Cons.IH)
  next
    case False
    then show ?thesis
      by (simp add: oom_pattern_loop_outcome Cons.IH split: prod.splits)
  qed
qed

lemma critical_line_loop_scan:
  "critical_line_loop re clk logs acc =
    (case scan_lines (critical_line_outcome re) clk logs of (es, c) \<Rightarrow> (acc @ es, c))"
proof (induction logs arbitrary: clk acc)
  case Nil
  then show ?case by simp
next
  case (Cons line rest)
  show ?case
  proof (cases "py_strip line = []")
    case True
    then have "critical_line_outcome re clk line = ([], clk)"
      by (simp add: critical_line_outcome_def strip_empty_iff)
    with True show ?thesis by (simp add: Cons.IH)
  next
    case False
    then show ?thesis
      by (simp add: critical_pattern_loop_outcome Cons.IH split: prod.splits)
  qed
qed

lemma analyze_oom_events_scan:
  "analyze_oom_events re clk logs = scan_lines (oom_line_outcome re) clk logs"
  by (simp add: analyze_oom_events_def oom_line_loop_scan split: prod.splits)

lemma analyze_critical_events_scan:
  "analyze_critical_events re clk logs = scan_lines (critical_line_outcome re) clk logs"
  by (simp add: analyze_critical_events_def critical_line_loop_scan split: prod.splits)

lemma parse_oom_event_pattern:
  "parse_oom_event re clk line p = (Some e, c) \<Longrightarrow> oe_pattern e = p"
  by (auto simp: parse_oom_event_def bindE_def split: prod.splits sum.splits)

lemma parse_critical_event_pattern:
  "parse_critical_event re clk line p = (Some e, c) \<Longrightarrow> ce_pattern e = p"
  by (auto simp: parse_critical_event_def split: prod.splits)

lemma oom_line_outcome_le1: "length (fst (oom_line_outcome re clk line)) \<le> 1"
  by (simp add: oom_line_outcome_def split: option.splits prod.splits)

lemma critical_line_outcome_le1: "length (fst (critical_line_outcome re clk line)) \<le> 1"
  by (simp add: critical_line_outcome_def split: option.splits prod.splits)

lemma oom_line_outcome_blank: "blank line \<Longrightarrow> oom_line_outcome re clk line = ([], clk)"
  by (simp add: oom_line_outcome_def)

lemma critical_line_outcome_blank:
  "blank line \<Longrightarrow> critical_line_outcome re clk line = ([], clk)"
  by (simp add: critical_line_outcome_def)

lemma oom_line_outcome_pattern:
  "e \<in> set (fst (oom_line_outcome re clk line)) \<Longrightarrow>
   first_match re oom_patterns line = Some (oe_pattern e)"
  by (auto simp: oom_line_outcome_def parse_oom_event_pattern
      split: option.splits prod.splits if_splits)

lemma critical_line_outcome_pattern:
  "e \<in> set (fst (critical_line_outcome re clk line)) \<Longrightarrow>
   first_match re critical_patterns line = Some (ce_pattern e)"
  by (auto simp: critical_line_outcome_def parse_critical_event_pattern
      split: option.splits prod.splits if_splits)

lemma scan_lines_length:
  assumes "\<And>clk line. length (fst (outcome clk line)) \<le> 1"
    and "\<And>clk line. blank line \<Longrightarrow> outcome clk line = ([], clk)"
  shows "length (fst (scan_lines outcome clk logs)) \<le> length (filter (\<lambda>l. \<not> blank l) logs)"
proof (induction logs arbitrary: clk)
  case Nil
  then show ?case by simp
next
  case (Cons line rest)
  obtain es c where o: "outcome clk line = (es, c)" by (cases "outcome clk line")
  obtain es' c' where s: "scan_lines outcome c rest = (es', c')"
    by (cases "scan_lines outcome c rest")
  have r: "length es' \<le> length (filter (\<lambda>l. \<not> blank l) rest)"
    using Cons.IH [of c] s by simp
  show ?case
  proof (cases "blank line")
    case True
    then have "es = []" using assms(2) [of line clk] o by simp
    with True o s r show ?thesis by simp
  next
    case False
    have "length es \<le> 1" using assms(1) [of clk line] o by simp
    with False o s r show ?thesis by simp
  qed
qed

text \<open>
  C6. Each scan is the sequence of the outcomes of its lines. A line is skipped exactly
  when it is blank, and a blank line gives no event and leaves the clock alone, whatever
  the patterns would say. A line gives at most one event in each scan, and that event
  carries the first pattern of the ordered list that matches the line; so a scan returns
  no more events than it has lines that are not blank.
\<close>

theorem scans_first_match_wins:
  "analyze_oom_events re clk logs = scan_lines (oom_line_outcome re) clk logs
   \<and> analyze_critical_events re clk logs = scan_lines (critical_line_outcome re) clk logs
   \<and> (py_strip line = [] \<longleftrightarrow> blank line)
   \<and> (blank line \<longrightarrow> oom_line_outcome re clk line = ([], clk)
                     \<and> critical_line_outcome re clk line = ([], clk))
   \<and> length (fst (oom_line_outcome re clk line)) \<le> 1
   \<and> length (fst (critical_line_outcome re clk line)) \<le> 1
   \<and> (\<forall>e \<in> set (fst (oom_line_outcome re clk line)).
         first_match re oom_patterns line = Some (oe_pattern e))
   \<and> (\<forall>e \<in> set (fst (critical_line_outcome re clk line)).
         first_match re critical_patterns line = Some (ce_pattern e))
   \<and> length (fst (analyze_oom_events re clk logs)) \<le> length (filter (\<lambda>l. \<not> blank l) logs)
   \<and> length (fst (analyze_critical_events re clk logs))
       \<le> length (filter (\<lambda>l. \<not> blank l) logs)"
proof -
  have l1: "length (fst (analyze_oom_events re clk logs))
      \<le> length (filter (\<lambda>l. \<not> blank l) logs)"
    unfolding analyze_oom_events_scan
    by (rule scan_lines_length [where outcome = "oom_line_outcome re",
          OF oom_line_outcome_le1 oom_line_outcome_blank])
  have l2: "length (fst (analyze_critical_events re clk logs))
      \<le> length (filter (\<lambda>l. \<not> blank l) logs)"
    unfolding analyze_critical_events_scan
    by (rule scan_lines_length [where outcome = "critical_line_outcome re",
          OF critical_line_outcome_le1 critical_line_outcome_blank])
  show ?thesis
    using l1 l2 analyze_oom_events_scan [of re clk logs]
      analyze_critical_events_scan [of re clk logs] strip_empty_iff [of line]
      oom_line_outcome_le1 [of re clk line] critical_line_outcome_le1 [of re clk line]
      oom_line_outcome_blank [of line re clk] critical_line_outcome_blank [of line re clk]
      oom_line_outcome_pattern [of _ re clk line]
      critical_line_outcome_pattern [of _ re clk line]
    by blast
qed

theorem scans_first_match_wins_witness:
  "blank ''  ''
   \<and> oom_line_outcome ascii_re (example_clock ''2024-01-01T00:00:00'') ''  ''
       = ([], example_clock ''2024-01-01T00:00:00'')
   \<and> critical_line_outcome ascii_re (example_clock ''2024-01-01T00:00:00'') ''  ''
       = ([], example_clock ''2024-01-01T00:00:00'')
   \<and> first_match ascii_re oom_patterns ''kernel panic: OOM killer: Out of memory''
       = Some ''Out of memory''
   \<and> first_match ascii_re critical_patterns ''kernel panic: OOM killer: Out of memory''
       = Some ''kernel.*panic''
   \<and> map oe_pattern (fst (analyze_oom_events ascii_re (example_clock ''2024-01-01T00:00:00'')
         [''  '', ''kernel panic: OOM killer: Out of memory''])) = [''Out of memory'']
   \<and> map ce_pattern (fst (analyze_critical_events ascii_re
         (example_clock ''2024-01-01T00:00:00'')
         [''  '', ''kernel panic: OOM killer: Out of memory''])) = [''kernel.*panic'']"
proof -
  let ?C = "example_clock ''2024-01-01T00:00:00''"
  let ?L = "''kernel panic: OOM killer: Out of memory''"
  have b: "blank ''  ''" by code_simp
  have o: "fst (oom_line_outcome ascii_re ?C ?L) =
    [\<lparr> oe_timestamp = ''2024-01-01T00:00:00'', oe_pattern = ''Out of memory'', oe_pid = None,
       oe_process_name = None, oe_oom_score = None, oe_memory_info = None,
       oe_raw_line = ''kernel panic: OOM killer: Out of memory'' \<rparr>]"
    by code_simp
  have c: "fst (critical_line_outcome ascii_re ?C ?L) =
    [\<lparr> ce_timestamp = ''2024-01-01T00:00:00'', ce_type = KERNEL_PANIC,
       ce_pattern = ''kernel.*panic'',
       ce_raw_line = ''kernel panic: OOM killer: Out of memory'' \<rparr>]"
    by code_simp
  have s1: "map oe_pattern (fst (analyze_oom_events ascii_re ?C [''  '', ?L]))
      = [''Out of memory'']"
    by code_simp
  have s2: "map ce_pattern (fst (analyze_critical_events ascii_re ?C [''  '', ?L]))
      = [''kernel.*panic'']"
    by code_simp
  have blank_outcomes:
    "oom_line_outcome ascii_re ?C ''  '' = ([], ?C)
     \<and> critical_line_outcome ascii_re ?C ''  '' = ([], ?C)"
    using scans_first_match_wins [of ascii_re ?C "[''  '', ?L]" "''  ''"] b by blast
  have m1: "first_match ascii_re oom_patterns ?L = Some ''Out of memory''"
    using scans_first_match_wins [of ascii_re ?C "[''  '', ?L]" ?L] o by simp
  have m2: "first_match ascii_re critical_patterns ?L = Some ''kernel.*panic''"
    using scans_first_match_wins [of ascii_re ?C "[''  '', ?L]" ?L] c by simp
  from b blank_outcomes m1 m2 s1 s2 show ?thesis by blast
qed


subsection \<open>Two runs of analyze\_all\_events on the same lines\<close>

lemma parse_oom_event_two_clocks:
  "map_option oom_sans_timestamp (fst (parse_oom_event re c1 line p))
     = map_option oom_sans_timestamp (fst (parse_oom_event re c2 line p))"
  by (auto simp: parse_oom_event_def oom_sans_timestamp_def bindE_def
      split: prod.splits sum.splits)

lemma parse_critical_event_two_clocks:
  "map_option critical_sans_timestamp (fst (parse_critical_event re c1 line p))
     = map_option critical_sans_timestamp (fst (parse_critical_event re c2 line p))"
  by (auto simp: parse_critical_event_def critical_sans_timestamp_def split: prod.splits)

lemma parse_oom_event_stamped:
  "find_timestamp re line \<noteq> None \<Longrightarrow>
   fst (parse_oom_event re c1 line p) = fst (parse_oom_event re c2 line p)"
  by (auto simp: parse_oom_event_def event_timestamp_def bindE_def
      split: prod.splits sum.splits)

lemma parse_critical_event_stamped:
  "find_timestamp re line \<noteq> None \<Longrightarrow>
   fst (parse_critical_event re c1 line p) = fst (parse_critical_event re c2 line p)"
  by (auto simp: parse_critical_event_def event_timestamp_def split: prod.splits)

lemma oom_line_outcome_two_clocks:
  "map oom_sans_timestamp (fst (oom_line_outcome re c1 line))
     = map oom_sans_timestamp (fst (oom_line_outcome re c2 line))"
proof (cases "blank line \<or> first_match re oom_patterns line = None")
  case True
  then show ?thesis by (auto simp: oom_line_outcome_def)
next
  case False
  then obtain p where p: "first_match re oom_patterns line = Some p" by auto
  show ?thesis
    using False p parse_oom_event_two_clocks [of re c1 line p c2]
    by (auto simp: oom_line_outcome_def split: prod.splits option.splits)
qed

lemma critical_line_outcome_two_clocks:
  "map critical_sans_timestamp (fst (critical_line_outcome re c1 line))
     = map critical_sans_timestamp (fst (critical_line_outcome re c2 line))"
proof (cases "blank line \<or> first_match re critical_patterns line = None")
  case True
  then show ?thesis by (auto simp: critical_line_outcome_def)
next
  case False
  then obtain p where p: "first_match re critical_patterns line = Some p" by auto
  show ?thesis
    using False p parse_critical_event_two_clocks [of re c1 line p c2]
    by (auto simp: critical_line_outcome_def split: prod.splits option.splits)
qed

lemma oom_line_outcome_stamped:
  assumes "find_timestamp re line = None \<longrightarrow> blank line \<or> first_match re oom_patterns line = None"
  shows "fst (oom_line_outcome re c1 line) = fst (oom_line_outcome re c2 line)"
proof (cases "blank line \<or> first_match re oom_patterns line = None")
  case True
  then show ?thesis by (auto simp: oom_line_outcome_def)
next
  case False
  then obtain p where p: "first_match re oom_patterns line = Some p" by auto
  from False assms have "find_timestamp re line \<noteq> None" by auto
  from parse_oom_event_stamped [OF this, of c1 p c2] False p show ?thesis
    by (auto simp: oom_line_outcome_def split: prod.splits option.splits)
qed

lemma critical_line_outcome_stamped:
  assumes "find_timestamp re line = None \<longrightarrow>
      blank line \<or> first_match re critical_patterns line = None"
  shows "fst (critical_line_outcome re c1 line) = fst (critical_line_outcome re c2 line)"
proof (cases "blank line \<or> first_match re critical_patterns line = None")
  case True
  then show ?thesis by (auto simp: critical_line_outcome_def)
next
  case False
  then obtain p where p: "first_match re critical_patterns line = Some p" by auto
  from False assms have "find_timestamp re line \<noteq> None" by auto
  from parse_critical_event_stamped [OF this, of c1 p c2] False p show ?thesis
    by (auto simp: critical_line_outcome_def split: prod.splits option.splits)
qed

lemma scan_lines_two_clocks:
  assumes "\<And>c1 c2 line. line \<in> set logs \<Longrightarrow>
      map f (fst (outcome c1 line)) = map f (fst (outcome c2 line))"
  shows "map f (fst (scan_lines outcome c1 logs)) = map f (fst (scan_lines outcome c2 logs))"
  using assms
proof (induction logs arbitrary: c1 c2)
  case Nil
  then show ?case by simp
next
  case (Cons line rest)
  obtain es1 d1 where o1: "outcome c1 line = (es1, d1)" by (cases "outcome c1 line")
  obtain es2 d2 where o2: "outcome c2 line = (es2, d2)" by (cases "outcome c2 line")
  have h: "map f es1 = map f es2"
    using Cons.prems [of line c1 c2] o1 o2 by simp
  have t: "map f (fst (scan_lines outcome d1 rest)) = map f (fst (scan_lines outcome d2 rest))"
    by (rule Cons.IH) (simp add: Cons.prems)
  obtain r1 e1 where s1: "scan_lines outcome d1 rest = (r1, e1)"
    by (cases "scan_lines outcome d1 rest")
  obtain r2 e2 where s2: "scan_lines outcome d2 rest = (r2, e2)"
    by (cases "scan_lines outcome d2 rest")
  show ?case
    using h t o1 o2 s1 s2 by simp
qed

lemma analyze_all_events_fields:
  "an_total_log_lines (fst (analyze_all_events re clk h logs)) = length logs
   \<and> an_oom_events (fst (analyze_all_events re clk h logs))
       = Some (fst (scan_lines (oom_line_outcome re) clk logs))
   \<and> an_oom_events_count (fst (analyze_all_events re clk h logs))
       = Some (int (length (fst (scan_lines (oom_line_outcome re) clk logs))))
   \<and> an_critical_events (fst (analyze_all_events re clk h logs))
       = Some (fst (scan_lines (critical_line_outcome re)
                 (snd (scan_lines (oom_line_outcome re) clk logs)) logs))
   \<and> an_critical_events_count (fst (analyze_all_events re clk h logs))
       = Some (int (length (fst (scan_lines (critical_line_outcome re)
                 (snd (scan_lines (oom_line_outcome re) clk logs)) logs))))"
  by (simp add: analyze_all_events_def analyze_oom_events_scan analyze_critical_events_scan
      Let_def split: prod.splits)

text \<open>
  C8, as stated, fails: an event of a line without a timestamp carries the time of the
  run that found it, so two runs at different times differ in that field.
\<close>

theorem analyze_all_events_rerun_counterexample:
  "an_oom_events (fst (analyze_all_events ascii_re (example_clock ''2024-01-01T00:00:00'') []
          [''Out of memory'']))
     \<noteq> an_oom_events (fst (analyze_all_events ascii_re (example_clock ''2024-01-01T00:05:00'') []
          [''Out of memory'']))"
  by code_simp


text \<open>
  C8, amended. Two runs on the same lines, whatever their clocks and the histories they
  extend, give the same total line count and the same OOM and critical event counts, and
  event sequences that agree in every field but the timestamp; when every line that is
  not blank and that a pattern matches holds a timestamp, the event sequences are
  identical.
\<close>

theorem analyze_all_events_rerun:
  "an_total_log_lines (fst (analyze_all_events re clk1 h1 logs))
     = an_total_log_lines (fst (analyze_all_events re clk2 h2 logs))
   \<and> an_oom_events_count (fst (analyze_all_events re clk1 h1 logs))
     = an_oom_events_count (fst (analyze_all_events re clk2 h2 logs))
   \<and> an_critical_events_count (fst (analyze_all_events re clk1 h1 logs))
     = an_critical_events_count (fst (analyze_all_events re clk2 h2 logs))
   \<and> map_option (map oom_sans_timestamp) (an_oom_events (fst (analyze_all_events re clk1 h1 logs)))
     = map_option (map oom_sans_timestamp)
         (an_oom_events (fst (analyze_all_events re clk2 h2 logs)))
   \<and> map_option (map critical_sans_timestamp)
         (an_critical_events (fst (analyze_all_events re clk1 h1 logs)))
     = map_option (map critical_sans_timestamp)
         (an_critical_events (fst (analyze_all_events re clk2 h2 logs)))
   \<and> ((\<forall>line \<in> set logs. find_timestamp re line = None \<longrightarrow>
          blank line \<or> (first_match re oom_patterns line = None
                        \<and> first_match re critical_patterns line = None))
      \<longrightarrow> an_oom_events (fst (analyze_all_events re clk1 h1 logs))
            = an_oom_events (fst (analyze_all_events re clk2 h2 logs))
          \<and> an_critical_events (fst (analyze_all_events re clk1 h1 logs))
            = an_critical_events (fst (analyze_all_events re clk2 h2 logs)))"
proof -
  let ?o1 = "fst (scan_lines (oom_line_outcome re) clk1 logs)"
  let ?o2 = "fst (scan_lines (oom_line_outcome re) clk2 logs)"
  let ?d1 = "snd (scan_lines (oom_line_outcome re) clk1 logs)"
  let ?d2 = "snd (scan_lines (oom_line_outcome re) clk2 logs)"
  let ?c1 = "fst (scan_lines (critical_line_outcome re) ?d1 logs)"
  let ?c2 = "fst (scan_lines (critical_line_outcome re) ?d2 logs)"
  have oom: "map oom_sans_timestamp ?o1 = map oom_sans_timestamp ?o2"
    by (rule scan_lines_two_clocks) (rule oom_line_outcome_two_clocks)
  have crit: "map critical_sans_timestamp ?c1 = map critical_sans_timestamp ?c2"
    by (rule scan_lines_two_clocks) (rule critical_line_outcome_two_clocks)
  have len_o: "length ?o1 = length ?o2"
    using arg_cong [OF oom, of length] by simp
  have len_c: "length ?c1 = length ?c2"
    using arg_cong [OF crit, of length] by simp
  have stamped: "?o1 = ?o2 \<and> ?c1 = ?c2"
    if st: "\<forall>line \<in> set logs. find_timestamp re line = None \<longrightarrow>
          blank line \<or> (first_match re oom_patterns line = None
                        \<and> first_match re critical_patterns line = None)"
  proof -
    have "map id ?o1 = map id ?o2"
    proof (rule scan_lines_two_clocks)
      fix c1 c2 line assume "line \<in> set logs"
      with st have "find_timestamp re line = None \<longrightarrow>
          blank line \<or> first_match re oom_patterns line = None" by auto
      from oom_line_outcome_stamped [OF this, of c1 c2]
      show "map id (fst (oom_line_outcome re c1 line))
          = map id (fst (oom_line_outcome re c2 line))" by simp
    qed
    moreover have "map id ?c1 = map id ?c2"
    proof (rule scan_lines_two_clocks)
      fix c1 c2 line assume "line \<in> set logs"
      with st have "find_timestamp re line = None \<longrightarrow>
          blank line \<or> first_match re critical_patterns line = None" by auto
      from critical_line_outcome_stamped [OF this, of c1 c2]
      show "map id (fst (critical_line_outcome re c1 line))
          = map id (fst (critical_line_outcome re c2 line))" by simp
    qed
    ultimately show ?thesis by simp
  qed
  show ?thesis
    using oom crit len_o len_c stamped
    by (simp only: analyze_all_events_fields option.map option.inject of_nat_eq_iff) blast
qed

theorem analyze_all_events_rerun_witness:
  "find_timestamp ascii_re ''2024-01-02 03:04:05 Out of memory'' = Some ''2024-01-02 03:04:05''
   \<and> blank ''  ''
   \<and> first_match ascii_re oom_patterns ''plain line'' = None
   \<and> first_match ascii_re critical_patterns ''plain line'' = None
   \<and> an_oom_events (fst (analyze_all_events ascii_re (example_clock ''2024-01-01T00:00:00'') []
        [''2024-01-02 03:04:05 Out of memory'', ''  '', ''plain line'']))
     = an_oom_events (fst (analyze_all_events ascii_re (example_clock ''2024-01-01T00:05:00'') []
        [''2024-01-02 03:04:05 Out of memory'', ''  '', ''plain line'']))
   \<and> map_option (map oe_timestamp)
       (an_oom_events (fst (analyze_all_events ascii_re (example_clock ''2024-01-01T00:00:00'') []
        [''2024-01-02 03:04:05 Out of memory'', ''  '', ''plain line''])))
     = Some [''2024-01-02 03:04:05'']
   \<and> map_option (map oom_sans_timestamp)
       (an_oom_events (fst (analyze_all_events ascii_re (example_clock ''2024-01-01T00:00:00'') []
          [''Out of memory''])))
     = map_option (map oom_sans_timestamp)
       (an_oom_events (fst (analyze_all_events ascii_re (example_clock ''2024-01-01T00:05:00'') []
          [''Out of memory''])))"
proof -
  let ?A = "example_clock ''2024-01-01T00:00:00''"
  let ?B = "example_clock ''2024-01-01T00:05:00''"
  let ?logs = "[''2024-01-02 03:04:05 Out of memory'', ''  '', ''plain line'']"
  have f1: "find_timestamp ascii_re ''2024-01-02 03:04:05 Out of memory''
      = Some ''2024-01-02 03:04:05''"
    by code_simp
  have f2: "blank ''  ''" by code_simp
  have f3: "first_match ascii_re oom_patterns ''plain line'' = None" by code_simp
  have f4: "first_match ascii_re critical_patterns ''plain line'' = None" by code_simp
  have hyp: "\<forall>line \<in> set ?logs. find_timestamp ascii_re line = None \<longrightarrow>
          blank line \<or> (first_match ascii_re oom_patterns line = None
                        \<and> first_match ascii_re critical_patterns line = None)"
    using f1 f2 f3 f4 by simp
  have same: "an_oom_events (fst (analyze_all_events ascii_re ?A [] ?logs))
     = an_oom_events (fst (analyze_all_events ascii_re ?B [] ?logs))"
    using analyze_all_events_rerun [of ascii_re ?A "[]" ?logs ?B "[]"] hyp by blast
  have stamps: "map_option (map oe_timestamp)
       (an_oom_events (fst (analyze_all_events ascii_re ?A [] ?logs)))
     = Some [''2024-01-02 03:04:05'']"
    by code_simp
  have sans: "map_option (map oom_sans_timestamp)
       (an_oom_events (fst (analyze_all_events ascii_re ?A [] [''Out of memory''])))
     = map_option (map oom_sans_timestamp)
       (an_oom_events (fst (analyze_all_events ascii_re ?B [] [''Out of memory''])))"
    using analyze_all_events_rerun [of ascii_re ?A "[]" "[''Out of memory'']" ?B "[]"]
    by blast
  from f1 f2 f3 f4 same stamps sans show ?thesis by blast
qed

end
